theory Spec2Isabelle
  imports Main "HOL-Library.Sublist"
begin

section \<open>JavaScript strings\<close>

text \<open>
  A JavaScript string is modelled as a \<^typ>\<open>string\<close>: every \<^typ>\<open>char\<close> stands for one
  UTF-16 code unit below \<open>0x100\<close>. The string methods the migration tool uses are
  translated one by one, restricted to that range.
\<close>

abbreviation SQ :: char where "SQ \<equiv> CHR 0x27"
abbreviation DQ :: char where "DQ \<equiv> CHR 0x22"
abbreviation BQ :: char where "BQ \<equiv> CHR 0x60"
abbreviation BSL :: char where "BSL \<equiv> CHR 0x5C"
abbreviation LF :: char where "LF \<equiv> CHR 0x0A"
abbreviation CR :: char where "CR \<equiv> CHR 0x0D"
abbreviation TAB :: char where "TAB \<equiv> CHR 0x09"
abbreviation VT :: char where "VT \<equiv> CHR 0x0B"
abbreviation FF :: char where "FF \<equiv> CHR 0x0C"
abbreviation NUL :: char where "NUL \<equiv> CHR 0x00"

text \<open>\<open>s.replace(/c/g, r)\<close> for a single character \<open>c\<close> and a replacement without \<open>$\<close>.\<close>

definition replaceChar :: "char \<Rightarrow> string \<Rightarrow> string \<Rightarrow> string" where
  "replaceChar c r s = concat (map (\<lambda>x. if x = c then r else [x]) s)"

text \<open>\<open>s.replace(/\r\n/g, r)\<close>: leftmost matches of the two-character sequence, left to right.\<close>

fun replaceCRLF :: "string \<Rightarrow> string \<Rightarrow> string" where
  "replaceCRLF r [] = []"
| "replaceCRLF r [x] = [x]"
| "replaceCRLF r (x # y # s) =
     (if x = CR \<and> y = LF then r @ replaceCRLF r s else x # replaceCRLF r (y # s))"

definition hexDigit :: "nat \<Rightarrow> char" where
  "hexDigit d = ''0123456789abcdef'' ! (d mod 16)"

text \<open>\<open>n.toString(16)\<close> for a non-negative integer.\<close>

function toHex :: "nat \<Rightarrow> string" where
  "toHex n = (if n < 16 then [hexDigit n] else toHex (n div 16) @ [hexDigit n])"
  by pat_completeness auto
termination
  by (relation "measure id") auto

text \<open>\<open>s.padStart(n, c)\<close> for a one-character filler.\<close>

definition padStart :: "nat \<Rightarrow> char \<Rightarrow> string \<Rightarrow> string" where
  "padStart n c s = replicate (n - length s) c @ s"

text \<open>The character class \<open>[\x01-\x08\x0B-\x0C\x0E-\x1F\x7F]\<close>.\<close>

definition isOtherControl :: "char \<Rightarrow> bool" where
  "isOtherControl c =
     (let n = (of_char c :: nat)
      in (1 \<le> n \<and> n \<le> 8) \<or> (11 \<le> n \<and> n \<le> 12) \<or> (14 \<le> n \<and> n \<le> 31) \<or> n = 127)"

definition hexEscape :: "char \<Rightarrow> string" where
  "hexEscape c = BSL # CHR ''x'' # padStart 2 (CHR ''0'') (toHex (of_char c))"

definition replaceOtherControl :: "string \<Rightarrow> string" where
  "replaceOtherControl s = concat (map (\<lambda>x. if isOtherControl x then hexEscape x else [x]) s)"

text \<open>\<open>s.toLowerCase()\<close> on code units below \<open>0x100\<close>: A-Z and the accented capitals.\<close>

definition toLowerChar :: "char \<Rightarrow> char" where
  "toLowerChar c =
     (let n = (of_char c :: nat)
      in if (65 \<le> n \<and> n \<le> 90) \<or> (192 \<le> n \<and> n \<le> 222 \<and> n \<noteq> 215) then char_of (n + 32) else c)"

definition toLowerCase :: "string \<Rightarrow> string" where
  "toLowerCase s = map toLowerChar s"

text \<open>\<open>s.includes(sub)\<close>, \<open>s.startsWith(p)\<close> and \<open>s.endsWith(p)\<close>.\<close>

fun includesJS :: "string \<Rightarrow> string \<Rightarrow> bool" where
  "includesJS [] sub = (sub = [])"
| "includesJS (c # cs) sub = (prefix sub (c # cs) \<or> includesJS cs sub)"

definition startsWith :: "string \<Rightarrow> string \<Rightarrow> bool" where
  "startsWith s p = prefix p s"

definition endsWith :: "string \<Rightarrow> string \<Rightarrow> bool" where
  "endsWith s p = suffix p s"

text \<open>
  White space as \<open>trim()\<close> and the regular expression class \<open>\s\<close> see it, below
  \<open>0x100\<close>: tab, line feed, vertical tab, form feed, carriage return, space and the
  no-break space.
\<close>

definition isWhiteSpace :: "char \<Rightarrow> bool" where
  "isWhiteSpace c = (c = TAB \<or> c = LF \<or> c = VT \<or> c = FF \<or> c = CR \<or> c = CHR 0x20 \<or> c = CHR 0xA0)"

definition trimStart :: "string \<Rightarrow> string" where
  "trimStart s = dropWhile isWhiteSpace s"

definition trimEnd :: "string \<Rightarrow> string" where
  "trimEnd s = rev (dropWhile isWhiteSpace (rev s))"

definition trim :: "string \<Rightarrow> string" where
  "trim s = trimEnd (trimStart s)"

text \<open>\<open>s.split('\n')\<close>: always at least one piece.\<close>

fun splitLF :: "string \<Rightarrow> string list" where
  "splitLF [] = [[]]"
| "splitLF (c # cs) =
     (if c = LF then [] # splitLF cs
      else (case splitLF cs of [] \<Rightarrow> [[c]] | l # ls \<Rightarrow> (c # l) # ls))"

text \<open>\<open>xs.join(sep)\<close> on an array of strings.\<close>

fun join :: "string \<Rightarrow> string list \<Rightarrow> string" where
  "join sep [] = []"
| "join sep [x] = x"
| "join sep (x # y # ys) = x @ sep @ join sep (y # ys)"

text \<open>\<open>xs.slice(i, j)\<close> for indices \<open>0 \<le> i \<le> j\<close>.\<close>

definition slice :: "'a list \<Rightarrow> nat \<Rightarrow> nat \<Rightarrow> 'a list" where
  "slice xs i j = drop i (take j xs)"

text \<open>\<open>s.substring(s.indexOf(sub) + sub.length)\<close> when \<open>sub\<close> occurs in \<open>s\<close>.\<close>

fun afterFirst :: "string \<Rightarrow> string \<Rightarrow> string" where
  "afterFirst sub [] = []"
| "afterFirst sub (c # cs) =
     (if prefix sub (c # cs) then drop (length sub) (c # cs) else afterFirst sub cs)"

section \<open>Runtime values\<close>

text \<open>
  Row values arrive dynamically typed. A number is represented by the text its
  \<open>toString()\<close> yields, a \<open>Date\<close> by the results of its local-time getters together
  with its \<open>String(...)\<close> conversion, and any other object by its \<open>String(...)\<close> conversion.
  \<open>JInvalidDate\<close> is a \<open>Date\<close> holding no time value: its getters give \<open>NaN\<close>.
  \<open>JUnprintable\<close> is an object that cannot be converted to a primitive value, such as a
  parsed JSON document whose \<open>toString\<close> property is a number: \<open>String(...)\<close> of it
  throws a \<open>TypeError\<close>.
\<close>

record js_date =
  getFullYear :: int
  getMonth :: nat
  getDate :: nat
  getHours :: nat
  getMinutes :: nat
  getSeconds :: nat
  dateString :: string

datatype js_value =
    JNull
  | JUndefined
  | JNumber string
  | JBoolean bool
  | JString string
  | JDate js_date
  | JInvalidDate
  | JObject string
  | JUnprintable

text \<open>
  Whether \<open>String(value)\<close> throws. Where the source converts a value that may be
  unprintable, the model tests \<open>stringThrows\<close> first and takes the branch of the
  exception; \<open>String_of\<close> of an unprintable object is never used.
\<close>

fun stringThrows :: "js_value \<Rightarrow> bool" where
  "stringThrows JUnprintable = True"
| "stringThrows v = False"

fun String_of :: "js_value \<Rightarrow> string" where
  "String_of JNull = ''null''"
| "String_of JUndefined = ''undefined''"
| "String_of (JNumber t) = t"
| "String_of (JBoolean b) = (if b then ''true'' else ''false'')"
| "String_of (JString s) = s"
| "String_of (JDate d) = dateString d"
| "String_of JInvalidDate = ''Invalid Date''"
| "String_of (JObject s) = s"
| "String_of JUnprintable = []"

section \<open>Value Encoder: \<open>escapeForSQLite\<close>\<close>

text \<open>
  The chain of \<open>replace\<close> calls, in the order of the source. On an unprintable object
  the source throws at \<open>String(value)\<close>, before the chain: the callers of the encoder,
  \<open>schemaLoop\<close> and \<open>rowLoop\<close> below, test \<open>stringThrows\<close> and take the branch of the
  exception, so the encoder is total here and its value on such an object is not used.
\<close>

definition escapeChain :: "string \<Rightarrow> string" where
  "escapeChain stringValue =
     replaceOtherControl
       (replaceChar FF [BSL, CHR ''f'']
         (replaceChar VT [BSL, CHR ''v'']
           (replaceChar NUL [BSL, CHR ''0'']
             (replaceChar BSL [BSL, BSL]
               (replaceChar TAB [BSL, CHR ''t'']
                 (replaceChar CR [BSL, CHR ''r'']
                   (replaceChar LF [BSL, CHR ''n'']
                     (replaceCRLF [BSL, CHR ''n'']
                       (replaceChar SQ [SQ, SQ] stringValue)))))))))"

fun escapeForSQLite :: "js_value \<Rightarrow> string" where
  "escapeForSQLite JNull = ''NULL''"
| "escapeForSQLite JUndefined = ''NULL''"
| "escapeForSQLite (JNumber t) = t"
| "escapeForSQLite (JBoolean b) = (if b then ''1'' else ''0'')"
| "escapeForSQLite v = [SQ] @ escapeChain (String_of v) @ [SQ]"

section \<open>Type Mapper: \<open>mapMySQLTypeToSQLite\<close>\<close>

text \<open>The argument is \<open>None\<close> for \<open>null\<close> or \<open>undefined\<close>; the empty string is falsy too.\<close>

definition mapMySQLTypeToSQLite :: "string option \<Rightarrow> string" where
  "mapMySQLTypeToSQLite mysqlType =
     (case mysqlType of
        None \<Rightarrow> ''TEXT''
      | Some t \<Rightarrow>
          if t = [] then ''TEXT''
          else
            (let type = toLowerCase t in
             if includesJS type ''tinyint(1)'' then ''INTEGER''
             else if includesJS type ''int'' then ''INTEGER''
             else if includesJS type ''bigint'' then ''INTEGER''
             else if includesJS type ''smallint'' then ''INTEGER''
             else if includesJS type ''mediumint'' then ''INTEGER''
             else if includesJS type ''char'' \<or> includesJS type ''text'' \<or> includesJS type ''enum''
                     \<or> includesJS type ''set'' then ''TEXT''
             else if includesJS type ''json'' then ''TEXT''
             else if includesJS type ''float'' \<or> includesJS type ''double'' \<or> includesJS type ''decimal''
                     \<or> includesJS type ''numeric'' then ''REAL''
             else if includesJS type ''bool'' then ''INTEGER''
             else if includesJS type ''date'' \<or> includesJS type ''time'' \<or> includesJS type ''timestamp''
                     \<or> includesJS type ''year'' then ''TEXT''
             else if includesJS type ''blob'' \<or> includesJS type ''binary'' then ''BLOB''
             else ''TEXT''))"

text \<open>The keyword families of the specification, as case-insensitive substring tests.\<close>

definition integerFamily :: "string \<Rightarrow> bool" where
  "integerFamily t =
     (includesJS (toLowerCase t) ''int'' \<or> includesJS (toLowerCase t) ''bigint''
      \<or> includesJS (toLowerCase t) ''smallint'' \<or> includesJS (toLowerCase t) ''mediumint'')"

definition textFamily :: "string \<Rightarrow> bool" where
  "textFamily t =
     (includesJS (toLowerCase t) ''char'' \<or> includesJS (toLowerCase t) ''text''
      \<or> includesJS (toLowerCase t) ''enum'' \<or> includesJS (toLowerCase t) ''set'')"

definition realFamily :: "string \<Rightarrow> bool" where
  "realFamily t =
     (includesJS (toLowerCase t) ''float'' \<or> includesJS (toLowerCase t) ''double''
      \<or> includesJS (toLowerCase t) ''decimal'' \<or> includesJS (toLowerCase t) ''numeric'')"

definition blobFamily :: "string \<Rightarrow> bool" where
  "blobFamily t = (includesJS (toLowerCase t) ''blob'' \<or> includesJS (toLowerCase t) ''binary'')"

section \<open>Statement Stream Parser\<close>

datatype error =
    MigrationFileNotFound
  | SQLFileNotFound
  | StatementFailed string
  | RequestFailed string
  | PollFailed
  | TypeError
  | CannotConvert

subsection \<open>The line-level \<open>parseSQLFile\<close> of the migration driver\<close>

text \<open>
  The loop state is \<open>(statements, currentStatement, inMultiLineStatement)\<close>; one call of
  \<open>parseLine\<close> is one iteration of \<open>for (const line of lines)\<close>.
\<close>

fun parseLine :: "string list \<times> string \<times> bool \<Rightarrow> string \<Rightarrow> string list \<times> string \<times> bool" where
  "parseLine (statements, currentStatement, inMultiLineStatement) line =
     (let trimmedLine = trim line in
      if trimmedLine = [] \<or> startsWith trimmedLine ''--'' \<or> startsWith trimmedLine ''PRAGMA''
      then (statements, currentStatement, inMultiLineStatement)
      else
        (let cur = currentStatement @ line @ [LF] in
         if endsWith trimmedLine '';''
         then ((if trim cur \<noteq> [] then statements @ [trim cur] else statements), [], False)
         else if includesJS trimmedLine ''CREATE TABLE'' \<or> includesJS trimmedLine ''INSERT INTO''
         then (statements, cur, True)
         else (statements, cur, inMultiLineStatement)))"

text \<open>The file is \<open>None\<close> when it does not exist, and its content otherwise.\<close>

definition parseSQLFile :: "string option \<Rightarrow> error + string list" where
  "parseSQLFile file =
     (case file of
        None \<Rightarrow> Inl MigrationFileNotFound
      | Some content \<Rightarrow>
          (case foldl parseLine ([], [], False) (splitLF content) of
             (statements, currentStatement, _) \<Rightarrow>
               Inr (if trim currentStatement \<noteq> [] then statements @ [trim currentStatement]
                    else statements)))"

subsection \<open>The character-level \<open>parseSQLFile\<close> of the D1 API client\<close>

text \<open>
  The inner loop over the characters of one line. The state is
  \<open>(statements, currentStatement, inString, stringChar)\<close>, with \<open>stringChar = None\<close> for
  the empty string; \<open>prev\<close> is \<open>line[i-1]\<close>, absent at \<open>i = 0\<close>.
\<close>

fun scanChars :: "char option \<Rightarrow> string list \<times> string \<times> bool \<times> char option \<Rightarrow> string
    \<Rightarrow> string list \<times> string \<times> bool \<times> char option" where
  "scanChars prev st [] = st"
| "scanChars prev (statements, currentStatement, inString, stringChar) (c # cs) =
     (if \<not> inString then
        (if c = DQ \<or> c = SQ \<or> c = BQ
         then scanChars (Some c) (statements, currentStatement @ [c], True, Some c) cs
         else if c = CHR '';''
         then (if trim currentStatement \<noteq> []
               then scanChars (Some c) (statements @ [trim currentStatement], [], inString, stringChar) cs
               else scanChars (Some c) (statements, currentStatement, inString, stringChar) cs)
         else scanChars (Some c) (statements, currentStatement @ [c], inString, stringChar) cs)
      else
        (if Some c = stringChar
         then (if prev = Some BSL
               then scanChars (Some c) (statements, currentStatement @ [c], inString, stringChar) cs
               else scanChars (Some c) (statements, currentStatement @ [c], False, None) cs)
         else scanChars (Some c) (statements, currentStatement @ [c], inString, stringChar) cs))"

text \<open>
  One iteration of \<open>for (let line of lines)\<close>, on the state
  \<open>(statements, currentStatement, inString, stringChar, inComment)\<close>.
\<close>

fun scanLine :: "string list \<times> string \<times> bool \<times> char option \<times> bool \<Rightarrow> string
    \<Rightarrow> string list \<times> string \<times> bool \<times> char option \<times> bool" where
  "scanLine (statements, currentStatement, inString, stringChar, inComment) rawLine =
     (let line = trim rawLine in
      if line = [] then (statements, currentStatement, inString, stringChar, inComment)
      else if startsWith line ''--'' \<or> startsWith line ''#''
      then (statements, currentStatement, inString, stringChar, inComment)
      else
        (let inComment1 = (if includesJS line ''/*'' then True else inComment) in
         if inComment1 \<and> \<not> includesJS line ''*/''
         then (statements, currentStatement, inString, stringChar, True)
         else
           (let line1 = (if inComment1 then afterFirst ''*/'' line else line) in
            (case scanChars None (statements, currentStatement, inString, stringChar) line1 of
               (statements', currentStatement', inString', stringChar') \<Rightarrow>
                 (statements', currentStatement' @ '' '', inString', stringChar', False)))))"

definition CloudflareD1API_parseSQLFile :: "string \<Rightarrow> string list" where
  "CloudflareD1API_parseSQLFile sqlContent =
     (case foldl scanLine ([], [], False, None, False) (splitLF sqlContent) of
        (statements, currentStatement, _) \<Rightarrow>
          filter (\<lambda>stmt. length stmt > 0)
            (if trim currentStatement \<noteq> [] then statements @ [trim currentStatement]
             else statements))"

section \<open>Batching Engine\<close>

subsection \<open>\<open>createBatches\<close> of the migration driver\<close>



subsection \<open>\<open>executeBatch\<close> and \<open>uploadSQLFile\<close> of the D1 API client\<close>

text \<open>
  The destination is a state of type \<open>'d\<close>; a query either succeeds (\<open>None\<close>) or fails
  with a message, and leaves a new state. \<open>submitted\<close> records the batches handed to
  \<open>executeBatch\<close>, in order.
\<close>

fun errorMessage :: "error \<Rightarrow> string" where
  "errorMessage MigrationFileNotFound = ''Migration file not found''"
| "errorMessage SQLFileNotFound = ''SQL file not found''"
| "errorMessage (StatementFailed e) = ''Statement failed: '' @ e"
| "errorMessage (RequestFailed e) = e"
| "errorMessage PollFailed = ''Poll failed''"
| "errorMessage TypeError = ''TypeError''"
| "errorMessage CannotConvert = ''Cannot convert object to primitive value''"

record upload_error =
  ue_batch :: nat
  ue_statement :: "string option"
  ue_error :: string

record 'd upload_state =
  successful :: nat
  failed :: nat
  errors :: "upload_error list"
  dest :: 'd
  submitted :: "string list list"

type_synonym 'd query = "'d \<Rightarrow> string \<Rightarrow> string option \<times> 'd"

fun executeBatch :: "'d query \<Rightarrow> 'd \<Rightarrow> string list \<Rightarrow> (bool \<times> string \<times> string) list \<times> 'd" where
  "executeBatch q d [] = ([], d)"
| "executeBatch q d (statement # rest) =
     (if trim statement \<noteq> [] then
        (case q d statement of
           (None, d') \<Rightarrow> (case executeBatch q d' rest of (rs, d'') \<Rightarrow> ((True, [], statement) # rs, d''))
         | (Some e, d') \<Rightarrow> (case executeBatch q d' rest of (rs, d'') \<Rightarrow> ((False, e, statement) # rs, d'')))
      else executeBatch q d rest)"

fun processResults :: "bool \<Rightarrow> nat \<Rightarrow> (bool \<times> string \<times> string) list \<Rightarrow> 'd upload_state
    \<Rightarrow> (error \<times> 'd upload_state) + 'd upload_state" where
  "processResults stopOnError batchNumber [] st = Inr st"
| "processResults stopOnError batchNumber ((success, e, statement) # rs) st =
     (if success then processResults stopOnError batchNumber rs (st\<lparr>successful := successful st + 1\<rparr>)
      else
        (let st' = st\<lparr>failed := failed st + 1,
                       errors := errors st @ [\<lparr>ue_batch = batchNumber, ue_statement = Some statement, ue_error = e\<rparr>]\<rparr>
         in if stopOnError then Inl (StatementFailed e, st')
            else processResults stopOnError batchNumber rs st'))"

partial_function (option) uploadLoop :: "'d query \<Rightarrow> bool \<Rightarrow> nat \<Rightarrow> string list \<Rightarrow> nat \<Rightarrow> 'd upload_state
    \<Rightarrow> ((error \<times> 'd upload_state) + 'd upload_state) option" where
  "uploadLoop q stopOnError batchSize statements i st =
     (if i < length statements then
        (let batch = slice statements i (i + batchSize);
             batchNumber = i div batchSize + 1;
             r = executeBatch q (dest st) batch;
             st1 = st\<lparr>dest := snd r, submitted := submitted st @ [batch]\<rparr>
         in case processResults stopOnError batchNumber (fst r) st1 of
              Inr st2 \<Rightarrow> uploadLoop q stopOnError batchSize statements (i + batchSize) st2
            | Inl (e, st2) \<Rightarrow>
                if stopOnError then Some (Inl (e, st2))
                else uploadLoop q stopOnError batchSize statements (i + batchSize)
                       (st2\<lparr>failed := failed st2 + length batch,
                            errors := errors st2 @ [\<lparr>ue_batch = batchNumber, ue_statement = None,
                                                     ue_error = errorMessage e\<rparr>]\<rparr>))
      else Some (Inr st))"

declare uploadLoop.simps [code]







record upload_options =
  opt_batchSize :: "nat option"
  opt_stopOnError :: "bool option"

record upload_report =
  r_successful :: nat
  r_failed :: nat
  r_total :: nat
  r_errors :: "upload_error list"

definition uploadSQLFile :: "'d query \<Rightarrow> 'd \<Rightarrow> string option \<Rightarrow> upload_options
    \<Rightarrow> (error + upload_report) option" where
  "uploadSQLFile q d file options =
     (case file of
        None \<Rightarrow> Some (Inl SQLFileNotFound)
      | Some sqlContent \<Rightarrow>
          (let statements = CloudflareD1API_parseSQLFile sqlContent;
               batchSize = (case opt_batchSize options of None \<Rightarrow> 10 | Some b \<Rightarrow> if b = 0 then 10 else b);
               stopOnError = (opt_stopOnError options \<noteq> Some False)
           in map_option
                (\<lambda>r. case r of
                   Inl (e, st) \<Rightarrow> Inl e
                 | Inr st \<Rightarrow> Inr \<lparr>r_successful = successful st, r_failed = failed st,
                                  r_total = length statements, r_errors = errors st\<rparr>)
                (uploadLoop q stopOnError batchSize statements 0
                   \<lparr>successful = 0, failed = 0, errors = [], dest = d, submitted = []\<rparr>)))"

subsection \<open>Invariant of the line-level parser loop\<close>

text \<open>
  Every statement pushed so far starts with neither marker, and a pending statement
  begins with a line that was not skipped.
\<close>

definition okStatement :: "string \<Rightarrow> bool" where
  "okStatement s = (\<not> startsWith s ''--'' \<and> \<not> startsWith s ''PRAGMA'')"

definition parseInv :: "string list \<times> string \<times> bool \<Rightarrow> bool" where
  "parseInv st =
     (case st of (statements, currentStatement, m) \<Rightarrow>
        (\<forall>s\<in>set statements. okStatement s) \<and>
        (currentStatement = [] \<or>
         (\<exists>l rest. trim l \<noteq> [] \<and> okStatement (trim l) \<and> currentStatement = l @ LF # rest)))"

section \<open>Destination cleaning: \<open>cleanD1Database\<close>\<close>

text \<open>
  The destination is a state of type \<open>'d\<close>. A raw request either throws or returns
  rows, and leaves a new state; \<open>executeD1RawSQL\<close> also records every SQL text sent.
\<close>

type_synonym 'd raw = "'d \<Rightarrow> string \<Rightarrow> (error + string list) \<times> 'd"

definition executeD1RawSQL :: "'d raw \<Rightarrow> 'd \<times> string list \<Rightarrow> string
    \<Rightarrow> (error + string list) \<times> 'd \<times> string list" where
  "executeD1RawSQL raw st sql =
     (case st of (d, sent) \<Rightarrow> (case raw d sql of (r, d') \<Rightarrow> (r, d', sent @ [sql])))"

text \<open>The multi-line template literal of \<open>getAllD1Tables\<close>, with its indentation.\<close>

definition listTablesSQL :: string where
  "listTablesSQL =
     [LF] @ replicate 12 (CHR '' '') @ ''SELECT name FROM sqlite_master '' @
     [LF] @ replicate 12 (CHR '' '') @ ''WHERE type='' @ [SQ] @ ''table'' @ [SQ] @
       '' AND name NOT LIKE '' @ [SQ] @ ''sqlite_%'' @ [SQ] @ '' '' @
     [LF] @ replicate 12 (CHR '' '') @ ''ORDER BY name;'' @
     [LF] @ replicate 8 (CHR '' '')"

text \<open>
  The result of the query is read as the first column of the rows of its first result
  set; any failure gives the empty list.
\<close>

definition getAllD1Tables :: "'d raw \<Rightarrow> 'd \<times> string list \<Rightarrow> string list \<times> 'd \<times> string list" where
  "getAllD1Tables raw st =
     (case executeD1RawSQL raw st listTablesSQL of
        (Inr tables, st') \<Rightarrow> (tables, st')
      | (Inl e, st') \<Rightarrow> ([], st'))"

definition dropTableSQL :: "string \<Rightarrow> string" where
  "dropTableSQL table = ''DROP TABLE IF EXISTS '' @ [DQ] @ table @ [DQ] @ '';''"

text \<open>The loop over \<open>tablesToDrop\<close>; a failed \<open>DROP\<close> is caught and the loop goes on.\<close>

fun dropTables :: "'d raw \<Rightarrow> 'd \<times> string list \<Rightarrow> string list \<Rightarrow> 'd \<times> string list" where
  "dropTables raw st [] = st"
| "dropTables raw st (table # rest) =
     (case executeD1RawSQL raw st (dropTableSQL table) of (r, st') \<Rightarrow> dropTables raw st' rest)"

definition cleanD1Database :: "'d raw \<Rightarrow> 'd \<times> string list \<Rightarrow> (error + unit) \<times> 'd \<times> string list" where
  "cleanD1Database raw st =
     (case executeD1RawSQL raw st ''PRAGMA foreign_keys = OFF;'' of
        (Inl e, st1) \<Rightarrow> (Inl e, st1)
      | (Inr r, st1) \<Rightarrow>
          (case getAllD1Tables raw st1 of
             (existingTables, st2) \<Rightarrow>
               if length existingTables = 0 then (Inr (), st2)
               else
                 (let tablesToDrop = filter (\<lambda>table. table \<noteq> ''_cf_KV'') existingTables;
                      st3 = dropTables raw st2 tablesToDrop
                  in case getAllD1Tables raw st3 of
                       (tables, st4) \<Rightarrow> (Inr (), st4))))"

text \<open>The requests the cleaning phase may send.\<close>

definition cleaningRequest :: "string \<Rightarrow> bool" where
  "cleaningRequest sql =
     (sql = ''PRAGMA foreign_keys = OFF;'' \<or> sql = listTablesSQL \<or>
      (\<exists>table. table \<noteq> ''_cf_KV'' \<and> sql = dropTableSQL table))"

section \<open>Staged import: \<open>pollImport\<close>\<close>

text \<open>
  The \<open>k\<close>-th poll request is answered by \<open>responses k\<close>: the request throws, or it
  returns \<open>success\<close> and a result with its \<open>status\<close> and \<open>state\<close> fields (absent
  when the result is missing). \<open>a || b\<close> on strings takes \<open>b\<close> when \<open>a\<close> is absent or
  empty. The loop counts its polls and the milliseconds it has slept; a run that never
  leaves the loop is the value \<open>None\<close>.
\<close>

datatype poll_response =
    AxiosError string
  | Response bool "(string option \<times> string option) option"

fun orElse :: "string option \<Rightarrow> string \<Rightarrow> string" where
  "orElse None d = d"
| "orElse (Some s) d = (if s = [] then d else s)"

datatype poll_outcome = Completed | ProcessExit nat | Thrown error

partial_function (option) pollImport :: "(nat \<Rightarrow> poll_response) \<Rightarrow> nat \<Rightarrow> nat
    \<Rightarrow> (poll_outcome \<times> nat \<times> nat) option" where
  "pollImport responses polls slept =
     (case responses polls of
        AxiosError e \<Rightarrow> Some (Thrown (RequestFailed e), polls, slept)
      | Response success result \<Rightarrow>
          if \<not> success then Some (Thrown (PollFailed), polls, slept)
          else
            (case result of
               None \<Rightarrow> Some (Thrown (TypeError), polls, slept)
             | Some (status_field, state_field) \<Rightarrow>
                 (let status = orElse status_field (orElse state_field ''pending'') in
                  if status = ''completed'' then Some (Completed, polls, slept)
                  else if status = ''failed'' then Some (ProcessExit 1, polls, slept)
                  else pollImport responses (polls + 1) (slept + 5000))))"

declare pollImport.simps [code]

text \<open>The status a response reports, when the poll neither throws nor fails.\<close>

definition reportedStatus :: "poll_response \<Rightarrow> string option" where
  "reportedStatus r =
     (case r of
        Response True (Some (status_field, state_field)) \<Rightarrow>
          Some (orElse status_field (orElse state_field ''pending''))
      | _ \<Rightarrow> None)"

definition nonTerminal :: "poll_response \<Rightarrow> bool" where
  "nonTerminal r =
     (case reportedStatus r of
        None \<Rightarrow> False
      | Some s \<Rightarrow> s \<noteq> ''completed'' \<and> s \<noteq> ''failed'')"

section \<open>Decimal text and white-space normalisation\<close>

text \<open>\<open>String(n)\<close> for an integer \<open>n\<close>.\<close>

function showNat :: "nat \<Rightarrow> string" where
  "showNat n = (if n < 10 then [''0123456789'' ! n] else showNat (n div 10) @ [''0123456789'' ! (n mod 10)])"
  by pat_completeness auto
termination
  by (relation "measure id") auto

definition showInt :: "int \<Rightarrow> string" where
  "showInt i = (if i < 0 then ''-'' @ showNat (nat (- i)) else showNat (nat i))"

text \<open>\<open>s.replace(/\s+/g, ' ')\<close>: every maximal run of white space becomes one space.\<close>

function collapseWhiteSpace :: "string \<Rightarrow> string" where
  "collapseWhiteSpace [] = []"
| "collapseWhiteSpace (c # cs) =
     (if isWhiteSpace c then CHR '' '' # collapseWhiteSpace (dropWhile isWhiteSpace cs)
      else c # collapseWhiteSpace cs)"
  by pat_completeness auto
termination
  by (relation "measure length") (auto simp: length_dropWhile_le less_Suc_eq_le)

section \<open>Value Encoder: \<open>formatMySQLDateTime\<close>\<close>

definition toSQLiteTS :: "js_date \<Rightarrow> string" where
  "toSQLiteTS date =
     showInt (getFullYear date) @ ''-'' @
     padStart 2 (CHR ''0'') (showNat (getMonth date + 1)) @ ''-'' @
     padStart 2 (CHR ''0'') (showNat (getDate date)) @ '' '' @
     padStart 2 (CHR ''0'') (showNat (getHours date)) @ '':'' @
     padStart 2 (CHR ''0'') (showNat (getMinutes date)) @ '':'' @
     padStart 2 (CHR ''0'') (showNat (getSeconds date))"

text \<open>
  For a string every branch of the source returns \<open>escapeForSQLite(value)\<close>, whichever
  of the three date patterns matches; so does the final fallback.
\<close>

fun formatMySQLDateTime :: "js_value \<Rightarrow> string" where
  "formatMySQLDateTime JNull = ''NULL''"
| "formatMySQLDateTime JUndefined = ''NULL''"
| "formatMySQLDateTime (JDate d) = [SQ] @ toSQLiteTS d @ [SQ]"
| "formatMySQLDateTime JInvalidDate = [SQ] @ ''NaN-NaN-NaN NaN:NaN:NaN'' @ [SQ]"
| "formatMySQLDateTime v = escapeForSQLite v"

section \<open>Schema Translator and Statement Generator: \<open>generateSQLFile\<close>\<close>

text \<open>A row of \<open>DESCRIBE\<close>. \<open>Default\<close> is \<open>JNull\<close> when the column has none.\<close>

record column =
  Field :: string
  Type :: string
  Null :: string
  Key :: string
  Default :: js_value
  Extra :: "string option"

text \<open>A row of the foreign-key query, and what \<open>getForeignKeys\<close> makes of it.\<close>

record fk_row =
  COLUMN_NAME :: string
  REFERENCED_TABLE_NAME :: string
  REFERENCED_COLUMN_NAME :: string
  UPDATE_RULE :: "string option"
  DELETE_RULE :: "string option"

record foreign_key =
  fk_column :: string
  refTable :: string
  refColumn :: string
  onUpdate :: string
  onDelete :: string

text \<open>
  The source database, read as a snapshot: within one run the same query gives the same
  answer. Every query either throws or returns its rows; a row of a table is its
  fields in the order \<open>Object.keys(row)\<close> lists them, with distinct names.
\<close>

record source =
  tableNamesQuery :: "error + string list"
  describeQuery :: "string \<Rightarrow> error + column list"
  foreignKeysQuery :: "string \<Rightarrow> error + fk_row list"
  selectAllQuery :: "string \<Rightarrow> error + (string \<times> js_value) list list"

definition getForeignKeys :: "source \<Rightarrow> string \<Rightarrow> error + foreign_key list" where
  "getForeignKeys src tableName =
     (case foreignKeysQuery src tableName of
        Inl e \<Rightarrow> Inl e
      | Inr rows \<Rightarrow>
          Inr (map (\<lambda>row. \<lparr>fk_column = COLUMN_NAME row, refTable = REFERENCED_TABLE_NAME row,
                            refColumn = REFERENCED_COLUMN_NAME row,
                            onUpdate = orElse (UPDATE_RULE row) ''NO ACTION'',
                            onDelete = orElse (DELETE_RULE row) ''NO ACTION''\<rparr>) rows))"

text \<open>The destination-native default expression \<open>DEFAULT (datetime('now'))\<close>.\<close>

definition nowDefault :: string where
  "nowDefault = ''DEFAULT (datetime('' @ [SQ] @ ''now'' @ [SQ] @ ''))''"

text \<open>The \<open>let defaultValue\<close> block of the column mapping.\<close>

definition defaultValue :: "column \<Rightarrow> string \<Rightarrow> string" where
  "defaultValue col type =
     (if Default col \<noteq> JNull \<and> Default col \<noteq> JUndefined then
        (if includesJS (String_of (Default col)) ''CURRENT_TIMESTAMP'' then
           (if includesJS (toLowerCase (Field col)) ''update'' then []
            else nowDefault)
         else if type = ''TEXT'' then ''DEFAULT '' @ escapeForSQLite (Default col)
         else ''DEFAULT '' @ String_of (Default col))
      else [])"

definition columnDefinition :: "column \<Rightarrow> string" where
  "columnDefinition col =
     (let type = mapMySQLTypeToSQLite (Some (Type col));
          nullable = (if Null col = ''YES'' then [] else ''NOT NULL'');
          primaryKey = (if Key col = ''PRI'' then ''PRIMARY KEY'' else []);
          autoIncrement =
            (case Extra col of
               None \<Rightarrow> []
             | Some extra \<Rightarrow> if extra \<noteq> [] \<and> includesJS extra ''auto_increment'' then ''AUTOINCREMENT'' else [])
      in collapseWhiteSpace
           (trim ([DQ] @ Field col @ [DQ] @ '' '' @ type @ '' '' @ nullable @ '' '' @ primaryKey @ '' '' @
                  autoIncrement @ '' '' @ defaultValue col type)))"

definition foreignKeyClause :: "foreign_key \<Rightarrow> string" where
  "foreignKeyClause fk =
     ''FOREIGN KEY('' @ [DQ] @ fk_column fk @ [DQ] @ '') REFERENCES '' @ [DQ] @ refTable fk @ [DQ] @
     ''('' @ [DQ] @ refColumn fk @ [DQ] @ '') ON DELETE '' @ onDelete fk @ '' ON UPDATE '' @ onUpdate fk"

definition createTableSQL :: "string \<Rightarrow> column list \<Rightarrow> foreign_key list \<Rightarrow> string" where
  "createTableSQL tableName columns foreignKeys =
     ''CREATE TABLE IF NOT EXISTS '' @ [DQ] @ tableName @ [DQ] @ '' ('' @ [LF] @ ''  '' @
     join ('','' @ [LF] @ ''  '') (map columnDefinition columns @ map foreignKeyClause foreignKeys) @
     [LF] @ '');''"

datatype log_line = Log string | Error string

text \<open>
  The schema loop: a failing catalog query is not caught and ends the run, and so does
  \<open>String(col.Default)\<close> on a default that is neither \<open>null\<close> nor printable.
\<close>

definition defaultThrows :: "column \<Rightarrow> bool" where
  "defaultThrows col = (Default col \<noteq> JNull \<and> Default col \<noteq> JUndefined \<and> stringThrows (Default col))"

fun schemaLoop :: "source \<Rightarrow> string list \<Rightarrow> string list \<times> log_line list
    \<Rightarrow> error + string list \<times> log_line list" where
  "schemaLoop src [] st = Inr st"
| "schemaLoop src (tableName # rest) (sqlStatements, console) =
     (case describeQuery src tableName of
        Inl e \<Rightarrow> Inl e
      | Inr columns \<Rightarrow>
          (case getForeignKeys src tableName of
             Inl e \<Rightarrow> Inl e
           | Inr foreignKeys \<Rightarrow>
               if list_ex defaultThrows columns then Inl CannotConvert
               else
                 schemaLoop src rest
                   (sqlStatements @ [createTableSQL tableName columns foreignKeys],
                    console @ [Log (''Generating schema for table: '' @ tableName)])))"

text \<open>The value of one field of a row, as the \<open>columns.map\<close> callback computes it.\<close>

definition encodeValue :: "column list \<Rightarrow> string \<Rightarrow> js_value \<Rightarrow> string" where
  "encodeValue columnsMeta col value =
     (if value = JNull \<or> value = JUndefined then ''NULL''
      else
        (case find (\<lambda>c. Field c = col) columnsMeta of
           Some columnMeta \<Rightarrow>
             (let colType = toLowerCase (Type columnMeta) in
              if includesJS colType ''datetime'' \<or> includesJS colType ''timestamp''
              then formatMySQLDateTime value
              else if includesJS colType ''date'' \<and> \<not> includesJS colType ''datetime''
              then escapeForSQLite value
              else if includesJS colType ''time'' \<and> \<not> includesJS colType ''datetime''
                      \<and> \<not> includesJS colType ''timestamp''
              then escapeForSQLite value
              else escapeForSQLite value)
         | None \<Rightarrow> escapeForSQLite value))"

definition insertSQL :: "string \<Rightarrow> column list \<Rightarrow> (string \<times> js_value) list \<Rightarrow> string" where
  "insertSQL tableName columnsMeta row =
     ''INSERT INTO '' @ [DQ] @ tableName @ [DQ] @ '' ('' @
     join '', '' (map (\<lambda>(col, value). [DQ] @ col @ [DQ]) row) @ '') VALUES ('' @
     join '', '' (map (\<lambda>(col, value). encodeValue columnsMeta col value) row) @ '');''"

text \<open>
  Whether computing the values of a row throws: a field that is neither \<open>null\<close> nor
  \<open>undefined\<close> reaches \<open>String(value)\<close> on every path but those of numbers, booleans and
  dates.
\<close>

definition rowThrows :: "(string \<times> js_value) list \<Rightarrow> bool" where
  "rowThrows row = list_ex (\<lambda>(col, value). value \<noteq> JNull \<and> value \<noteq> JUndefined \<and> stringThrows value) row"

text \<open>
  The loop over the rows of one table, on \<open>sqlStatements\<close>: the values of a row are all
  computed before its \<open>INSERT\<close> is pushed, so a row that throws leaves the statements
  of the rows before it.
\<close>

fun rowLoop :: "string \<Rightarrow> column list \<Rightarrow> (string \<times> js_value) list list \<Rightarrow> string list
    \<Rightarrow> (error \<times> string list) + string list" where
  "rowLoop tableName columnsMeta [] sqlStatements = Inr sqlStatements"
| "rowLoop tableName columnsMeta (row # rows) sqlStatements =
     (if rowThrows row then Inl (CannotConvert, sqlStatements)
      else rowLoop tableName columnsMeta rows (sqlStatements @ [insertSQL tableName columnsMeta row]))"

text \<open>
  One iteration of the data loop, on \<open>(sqlStatements, totalRows, console)\<close>. The body
  is inside \<open>try\<close>: an exception is logged and the loop goes on, with the statements
  pushed so far; \<open>totalRows\<close> is updated only after the last row.
\<close>

definition dataStep :: "source \<Rightarrow> string list \<times> nat \<times> log_line list \<Rightarrow> string
    \<Rightarrow> string list \<times> nat \<times> log_line list" where
  "dataStep src st tableName =
     (case st of (sqlStatements, totalRows, console) \<Rightarrow>
        (let console1 = console @ [Log (''Generating data for table: '' @ tableName)] in
         case selectAllQuery src tableName of
           Inl e \<Rightarrow>
             (sqlStatements, totalRows,
              console1 @ [Error (''Error generating data for table '' @ tableName @ '': '' @ errorMessage e)])
         | Inr rows \<Rightarrow>
             if length rows = 0
             then (sqlStatements, totalRows, console1 @ [Log (''  No data found in table: '' @ tableName)])
             else
               (case describeQuery src tableName of
                  Inl e \<Rightarrow>
                    (sqlStatements, totalRows,
                     console1 @ [Error (''Error generating data for table '' @ tableName @ '': '' @ errorMessage e)])
                | Inr columnsMeta \<Rightarrow>
                    (case rowLoop tableName columnsMeta rows sqlStatements of
                       Inl (e, sqlStatements') \<Rightarrow>
                         (sqlStatements', totalRows,
                          console1 @ [Error (''Error generating data for table '' @ tableName @ '': '' @
                                             errorMessage e)])
                     | Inr sqlStatements' \<Rightarrow>
                         (sqlStatements', totalRows + length rows,
                          console1 @ [Log (''  Generated '' @ showNat (length rows) @
                                           '' insert statements for table: '' @ tableName)])))))"

text \<open>The three statements pushed first, and the summary comment pushed last.\<close>

definition header :: "string \<Rightarrow> string list" where
  "header now = [''PRAGMA foreign_keys = OFF;'', ''-- Generated from MySQL to SQLite migration'',
                 ''-- Generated on: '' @ now]"

definition summaryComment :: "nat \<Rightarrow> nat \<Rightarrow> string" where
  "summaryComment tables totalRows =
     ''-- Migration completed: '' @ showNat tables @ '' tables, '' @ showNat totalRows @ '' rows''"

record generated =
  gen_count :: nat
  gen_statements :: "string list"
  gen_content :: string
  gen_console :: "log_line list"
  gen_report :: "log_line list"

text \<open>
  \<open>now\<close> is \<open>new Date().toISOString()\<close>. The directory and file operations are
  taken to succeed. The result holds the returned count, the statements, the text
  written to the file and the console output; \<open>gen_report\<close> is the part of the console
  output written after the loops.
\<close>

definition generateSQLFile :: "source \<Rightarrow> string \<Rightarrow> error + generated" where
  "generateSQLFile src now =
     (case tableNamesQuery src of
        Inl e \<Rightarrow> Inl e
      | Inr tableNames \<Rightarrow>
          (case schemaLoop src tableNames
                  (header now,
                   [Log (''Found '' @ showNat (length tableNames) @ '' tables to migrate'')]) of
             Inl e \<Rightarrow> Inl e
           | Inr (stmts1, console1) \<Rightarrow>
               (case foldl (dataStep src) (stmts1, 0, console1) tableNames of
                  (stmts2, totalRows, console2) \<Rightarrow>
                    (let stmts3 = stmts2 @ [summaryComment (length tableNames) totalRows];
                         report = [Log ''SQL file generated: ./temp/migration.sql'',
                                   Log (''Total statements: '' @ showNat (length stmts3)),
                                   Log (''Total data rows: '' @ showNat totalRows)]
                     in Inr \<lparr>gen_count = length stmts3, gen_statements = stmts3,
                             gen_content = join [LF] stmts3 @ [LF],
                             gen_console = console2 @ report, gen_report = report\<rparr>))))"

text \<open>The guard of the callers: \<open>if (statementCount === 0) throw ...\<close>.\<close>

definition noStatementsGenerated :: "nat \<Rightarrow> bool" where
  "noStatementsGenerated statementCount = (statementCount = 0)"

text \<open>
  Whether the schema phase gets through a table, and what one table contributes to the
  statement stream, to \<open>totalRows\<close> and to the console, for stating the results: its \<open>INSERT\<close>s are those of the rows before the first
  one that throws, and its rows are counted only when its block runs to the end.
\<close>

definition schemaSucceeds :: "source \<Rightarrow> string \<Rightarrow> bool" where
  "schemaSucceeds src tableName =
     (case describeQuery src tableName of
        Inl e \<Rightarrow> False
      | Inr columns \<Rightarrow>
          (case foreignKeysQuery src tableName of
             Inl e \<Rightarrow> False
           | Inr rows \<Rightarrow> \<not> list_ex defaultThrows columns))"

definition schemaOf :: "source \<Rightarrow> string \<Rightarrow> string" where
  "schemaOf src tableName =
     (case describeQuery src tableName of
        Inl e \<Rightarrow> []
      | Inr columns \<Rightarrow>
          (case getForeignKeys src tableName of
             Inl e \<Rightarrow> []
           | Inr foreignKeys \<Rightarrow> createTableSQL tableName columns foreignKeys))"

definition tableInserts :: "source \<Rightarrow> string \<Rightarrow> string list" where
  "tableInserts src tableName =
     (case selectAllQuery src tableName of
        Inl e \<Rightarrow> []
      | Inr rows \<Rightarrow>
          (case describeQuery src tableName of
             Inl e \<Rightarrow> []
           | Inr columnsMeta \<Rightarrow>
               map (insertSQL tableName columnsMeta) (takeWhile (\<lambda>row. \<not> rowThrows row) rows)))"

definition tableRows :: "source \<Rightarrow> string \<Rightarrow> nat" where
  "tableRows src tableName =
     (case selectAllQuery src tableName of
        Inl e \<Rightarrow> 0
      | Inr rows \<Rightarrow>
          (case describeQuery src tableName of
             Inl e \<Rightarrow> 0
           | Inr columnsMeta \<Rightarrow> if list_ex rowThrows rows then 0 else length rows))"

definition dataLog :: "source \<Rightarrow> string \<Rightarrow> log_line list" where
  "dataLog src tableName =
     Log (''Generating data for table: '' @ tableName) #
     (case selectAllQuery src tableName of
        Inl e \<Rightarrow> [Error (''Error generating data for table '' @ tableName @ '': '' @ errorMessage e)]
      | Inr rows \<Rightarrow>
          if length rows = 0 then [Log (''  No data found in table: '' @ tableName)]
          else
            (case describeQuery src tableName of
               Inl e \<Rightarrow> [Error (''Error generating data for table '' @ tableName @ '': '' @ errorMessage e)]
             | Inr columnsMeta \<Rightarrow>
                 if list_ex rowThrows rows
                 then [Error (''Error generating data for table '' @ tableName @ '': '' @
                              errorMessage CannotConvert)]
                 else [Log (''  Generated '' @ showNat (length rows) @ '' insert statements for table: '' @
                            tableName)]))"

text \<open>
  Two sources for the examples: two tables, where the row query of \<open>a\<close> throws, and
  the same source with \<open>a\<close> empty instead.
\<close>

definition failingSource :: source where
  "failingSource =
     \<lparr>tableNamesQuery = Inr [''a'', ''b''],
      describeQuery = (\<lambda>u. Inr [\<lparr>Field = ''id'', Type = ''int'', Null = ''NO'', Key = ''PRI'',
                                     Default = JNull, Extra = None\<rparr>]),
      foreignKeysQuery = (\<lambda>u. Inr []),
      selectAllQuery = (\<lambda>u. if u = ''a'' then Inl (RequestFailed ''gone'')
                             else Inr [[(''id'', JNumber ''1'')]])\<rparr>"

definition emptiedSource :: source where
  "emptiedSource =
     failingSource\<lparr>selectAllQuery := (\<lambda>u. if u = ''a'' then Inr [] else Inr [[(''id'', JNumber ''1'')]])\<rparr>"

text \<open>
  A second example: the second row of \<open>t\<close> holds an object that cannot be converted
  to a string.
\<close>

definition unprintableSource :: source where
  "unprintableSource =
     \<lparr>tableNamesQuery = Inr [''t'', ''u''],
      describeQuery = (\<lambda>u. Inr [\<lparr>Field = ''id'', Type = ''int'', Null = ''NO'', Key = ''PRI'',
                                     Default = JNull, Extra = None\<rparr>]),
      foreignKeysQuery = (\<lambda>u. Inr []),
      selectAllQuery = (\<lambda>u. if u = ''t'' then Inr [[(''id'', JNumber ''1'')], [(''id'', JUnprintable)]]
                             else Inr [[(''id'', JNumber ''1'')]])\<rparr>"

definition noTablesSource :: source where
  "noTablesSource =
     \<lparr>tableNamesQuery = Inr [], describeQuery = (\<lambda>u. Inr []), foreignKeysQuery = (\<lambda>u. Inr []),
      selectAllQuery = (\<lambda>u. Inr [])\<rparr>"

subsection \<open>Statements both parsers give back\<close>





section \<open>Properties of the Value Encoder\<close>

text \<open>
  C1. The specification asks that encoding a string with a single quote, a backslash and
  a newline gives a literal in which the quote is doubled, the backslash is doubled and
  the newline is exactly backslash, \<open>n\<close>. The code runs the backslash-doubling replacement after the
  newline and tab substitutions, so the backslash those substitutions introduced is
  doubled as well: for the input quote, backslash, newline the literal holds the doubled
  quote, the doubled backslash, and then backslash, backslash, \<open>n\<close>.
\<close>

theorem escapeForSQLite_quote_backslash_newline:
  "escapeForSQLite (JString [SQ, BSL, LF]) = [SQ] @ [SQ, SQ] @ [BSL, BSL] @ [BSL, BSL, CHR ''n''] @ [SQ]"
  by (simp add: escapeChain_def replaceChar_def replaceOtherControl_def isOtherControl_def)

section \<open>Properties of the Type Mapper\<close>

lemma includesJS_iff: "includesJS s sub \<longleftrightarrow> (\<exists>ps ss. s = ps @ sub @ ss)"
proof (induction s)
  case Nil
  then show ?case by auto
next
  case (Cons c cs)
  show ?case
  proof
    assume "includesJS (c # cs) sub"
    then consider "prefix sub (c # cs)" | "includesJS cs sub" by auto
    then show "\<exists>ps ss. c # cs = ps @ sub @ ss"
    proof cases
      case 1
      then obtain ss where "c # cs = sub @ ss" by (auto simp: prefix_def)
      then have "c # cs = [] @ sub @ ss" by simp
      then show ?thesis by blast
    next
      case 2
      with Cons.IH obtain ps ss where "cs = ps @ sub @ ss" by blast
      then have "c # cs = (c # ps) @ sub @ ss" by simp
      then show ?thesis by blast
    qed
  next
    assume "\<exists>ps ss. c # cs = ps @ sub @ ss"
    then obtain ps ss where eq: "c # cs = ps @ sub @ ss" by blast
    show "includesJS (c # cs) sub"
    proof (cases ps)
      case Nil
      with eq have "prefix sub (c # cs)" by (simp add: prefix_def)
      then show ?thesis by simp
    next
      case (Cons p ps')
      with eq have "cs = ps' @ sub @ ss" by simp
      with Cons.IH have "includesJS cs sub" by blast
      then show ?thesis by simp
    qed
  qed
qed

lemma includesJS_longer: "includesJS s (a @ sub) \<Longrightarrow> includesJS s sub"
proof -
  assume "includesJS s (a @ sub)"
  then obtain ps ss where "s = ps @ (a @ sub) @ ss" by (auto simp: includesJS_iff)
  then have "s = (ps @ a) @ sub @ ss" by simp
  then show ?thesis unfolding includesJS_iff by blast
qed

lemma includesJS_shorter: "includesJS s (sub @ b) \<Longrightarrow> includesJS s sub"
proof -
  assume "includesJS s (sub @ b)"
  then obtain ps ss where "s = ps @ (sub @ b) @ ss" by (auto simp: includesJS_iff)
  then have "s = ps @ sub @ (b @ ss)" by simp
  then show ?thesis unfolding includesJS_iff by blast
qed

lemma integerFamily_int: "integerFamily t \<longleftrightarrow> includesJS (toLowerCase t) ''int''"
  using includesJS_longer [of "toLowerCase t" "''big''" "''int''"]
    includesJS_longer [of "toLowerCase t" "''small''" "''int''"]
    includesJS_longer [of "toLowerCase t" "''medium''" "''int''"]
  by (auto simp: integerFamily_def)

text \<open>
  C4. A type string with an integer-family keyword (\<open>int\<close>, \<open>bigint\<close>, \<open>smallint\<close>,
  \<open>mediumint\<close>, as a case-insensitive substring) maps to \<open>INTEGER\<close>; a type string with a
  text-family keyword (\<open>char\<close>, \<open>text\<close>, \<open>enum\<close>, \<open>set\<close>) and no integer-, real- or
  blob-family keyword maps to \<open>TEXT\<close>.
\<close>

theorem mapMySQLTypeToSQLite_families:
  "(integerFamily t \<longrightarrow> mapMySQLTypeToSQLite (Some t) = ''INTEGER'') \<and>
   (textFamily t \<and> \<not> integerFamily t \<and> \<not> realFamily t \<and> \<not> blobFamily t \<longrightarrow>
      mapMySQLTypeToSQLite (Some t) = ''TEXT'')"
proof (intro conjI impI)
  assume "integerFamily t"
  then have i: "includesJS (toLowerCase t) ''int''" by (simp add: integerFamily_int)
  then have "t \<noteq> []" by (auto simp: toLowerCase_def)
  with i show "mapMySQLTypeToSQLite (Some t) = ''INTEGER''"
    by (simp add: mapMySQLTypeToSQLite_def Let_def)
next
  assume a: "textFamily t \<and> \<not> integerFamily t \<and> \<not> realFamily t \<and> \<not> blobFamily t"
  then have n: "\<not> includesJS (toLowerCase t) ''int''" by (simp add: integerFamily_int)
  have n1: "\<not> includesJS (toLowerCase t) ''tinyint(1)''"
    using n includesJS_longer [of "toLowerCase t" "''tiny''" "''int(1)''"]
      includesJS_shorter [of "toLowerCase t" "''int''" "''(1)''"]
    by auto
  from a have "t \<noteq> []" by (auto simp: textFamily_def toLowerCase_def)
  moreover from a have "includesJS (toLowerCase t) ''char'' \<or> includesJS (toLowerCase t) ''text''
      \<or> includesJS (toLowerCase t) ''enum'' \<or> includesJS (toLowerCase t) ''set''"
    by (simp add: textFamily_def)
  moreover from a have "\<not> includesJS (toLowerCase t) ''bigint''"
    and "\<not> includesJS (toLowerCase t) ''smallint''" and "\<not> includesJS (toLowerCase t) ''mediumint''"
    by (simp_all add: integerFamily_def)
  ultimately show "mapMySQLTypeToSQLite (Some t) = ''TEXT''"
    using n n1 by (simp add: mapMySQLTypeToSQLite_def Let_def)
qed

theorem mapMySQLTypeToSQLite_families_witness:
  "integerFamily ''BIGINT(20)'' \<and> mapMySQLTypeToSQLite (Some ''BIGINT(20)'') = ''INTEGER'' \<and>
   textFamily ''VARCHAR(255)'' \<and> \<not> integerFamily ''VARCHAR(255)'' \<and>
   \<not> realFamily ''VARCHAR(255)'' \<and> \<not> blobFamily ''VARCHAR(255)'' \<and>
   mapMySQLTypeToSQLite (Some ''VARCHAR(255)'') = ''TEXT''"
proof -
  have 1: "integerFamily ''BIGINT(20)''"
    by code_simp
  have 2: "textFamily ''VARCHAR(255)''"
    by code_simp
  have 3: "\<not> integerFamily ''VARCHAR(255)''"
    by code_simp
  have 4: "\<not> realFamily ''VARCHAR(255)''"
    by code_simp
  have 5: "\<not> blobFamily ''VARCHAR(255)''"
    by code_simp
  show ?thesis
    using 1 2 3 4 5 mapMySQLTypeToSQLite_families [of "''BIGINT(20)''"]
      mapMySQLTypeToSQLite_families [of "''VARCHAR(255)''"]
    by simp
qed

section \<open>Properties of the Batching Engine\<close>






















section \<open>Properties of \<open>trim\<close>\<close>

lemma trimEnd_append_ws: "\<forall>c\<in>set b. isWhiteSpace c \<Longrightarrow> trimEnd (a @ b) = trimEnd a"
  by (simp add: trimEnd_def dropWhile_append)

lemma trimEnd_append_not_ws:
  "\<not> (\<forall>c\<in>set b. isWhiteSpace c) \<Longrightarrow> trimEnd (a @ b) = a @ trimEnd b"
  by (auto simp: trimEnd_def dropWhile_append)

lemma trimStart_append_not_ws:
  "\<not> (\<forall>c\<in>set a. isWhiteSpace c) \<Longrightarrow> trimStart (a @ b) = trimStart a @ b"
  by (auto simp: trimStart_def dropWhile_append)

lemma trimEnd_decomp: "\<exists>w. x = trimEnd x @ w \<and> (\<forall>c\<in>set w. isWhiteSpace c)"
proof -
  have "rev x = takeWhile isWhiteSpace (rev x) @ dropWhile isWhiteSpace (rev x)" by simp
  then have "x = rev (dropWhile isWhiteSpace (rev x)) @ rev (takeWhile isWhiteSpace (rev x))"
    by (metis rev_append rev_rev_ident)
  moreover have "\<forall>c\<in>set (rev (takeWhile isWhiteSpace (rev x))). isWhiteSpace c"
    by (auto dest: set_takeWhileD)
  ultimately show ?thesis unfolding trimEnd_def by blast
qed

lemma trimStart_all_ws: "\<forall>c\<in>set l. isWhiteSpace c \<Longrightarrow> trimStart l = []"
  by (simp add: trimStart_def)

lemma trimEnd_all_ws: "\<forall>c\<in>set l. isWhiteSpace c \<Longrightarrow> trimEnd l = []"
  by (simp add: trimEnd_def)

lemma trim_nonempty_not_all_ws: "trim l \<noteq> [] \<Longrightarrow> \<not> (\<forall>c\<in>set l. isWhiteSpace c)"
proof
  assume "trim l \<noteq> []" and "\<forall>c\<in>set l. isWhiteSpace c"
  then have "trimStart l = []" by (simp add: trimStart_all_ws)
  then have "trim l = []" by (simp add: trim_def trimEnd_def)
  with \<open>trim l \<noteq> []\<close> show False by simp
qed

lemma trim_append_ws:
  assumes "\<forall>c\<in>set r. isWhiteSpace c"
  shows "trim (l @ r) = trim l"
proof (cases "\<forall>c\<in>set l. isWhiteSpace c")
  case True
  with assms have "\<forall>c\<in>set (l @ r). isWhiteSpace c" by auto
  then have "trimStart (l @ r) = []" by (rule trimStart_all_ws)
  moreover from True have "trimStart l = []" by (rule trimStart_all_ws)
  ultimately show ?thesis by (simp add: trim_def)
next
  case False
  then have "trimStart (l @ r) = trimStart l @ r" by (rule trimStart_append_not_ws)
  moreover have "trimEnd (trimStart l @ r) = trimEnd (trimStart l)"
    using assms by (rule trimEnd_append_ws)
  ultimately show ?thesis by (simp add: trim_def)
qed

lemma trim_append_LF_cases:
  assumes "trim l \<noteq> []"
  shows "trim (l @ LF # rest) = trim l \<or>
         (\<exists>c y. isWhiteSpace c \<and> trim (l @ LF # rest) = trim l @ c # y)"
proof (cases "\<forall>c\<in>set (LF # rest). isWhiteSpace c")
  case True
  then show ?thesis using trim_append_ws by blast
next
  case False
  from assms have nl: "\<not> (\<forall>c\<in>set l. isWhiteSpace c)" by (rule trim_nonempty_not_all_ws)
  obtain w where w: "trimStart l = trim l @ w" "\<forall>c\<in>set w. isWhiteSpace c"
    using trimEnd_decomp [of "trimStart l"] unfolding trim_def by blast
  have lf: "isWhiteSpace LF" by (simp add: isWhiteSpace_def)
  from False lf have nr: "\<not> (\<forall>c\<in>set rest. isWhiteSpace c)" by simp
  have 1: "trimStart (l @ LF # rest) = trimStart l @ LF # rest"
    using nl by (rule trimStart_append_not_ws)
  have 2: "trimEnd (trimStart l @ LF # rest) = trimStart l @ trimEnd (LF # rest)"
    using False by (rule trimEnd_append_not_ws)
  have 3: "trimEnd (LF # rest) = LF # trimEnd rest"
    using trimEnd_append_not_ws [OF nr, of "[LF]"] by simp
  have "trim (l @ LF # rest) = trim l @ (w @ LF # trimEnd rest)"
    unfolding trim_def 1 2 3 using w(1) by (simp add: trim_def)
  moreover obtain c y where "w @ LF # trimEnd rest = c # y" "isWhiteSpace c"
    using w(2) lf by (cases w) auto
  ultimately show ?thesis by auto
qed

lemma prefix_no_ws:
  assumes "\<forall>c\<in>set p. \<not> isWhiteSpace c" and "isWhiteSpace c" and "prefix p (t @ c # y)"
  shows "prefix p t"
proof -
  from assms(3) obtain zs where "t @ c # y = p @ zs" by (auto simp: prefix_def)
  then obtain us where "(t = p @ us \<and> us @ c # y = zs) \<or> (t @ us = p \<and> c # y = us @ zs)"
    by (auto simp: append_eq_append_conv2)
  then show ?thesis
  proof
    assume "t = p @ us \<and> us @ c # y = zs"
    then show ?thesis by simp
  next
    assume a: "t @ us = p \<and> c # y = us @ zs"
    show ?thesis
    proof (cases us)
      case Nil
      with a show ?thesis by simp
    next
      case (Cons u us')
      with a have "c \<in> set p" by auto
      with assms show ?thesis by blast
    qed
  qed
qed

lemma startsWith_trim_append:
  assumes "trim l \<noteq> []" and "\<forall>c\<in>set p. \<not> isWhiteSpace c" and "\<not> startsWith (trim l) p"
  shows "\<not> startsWith (trim (l @ LF # rest)) p"
  using trim_append_LF_cases [OF assms(1), of rest] assms(2,3) prefix_no_ws
  unfolding startsWith_def by metis

section \<open>Properties of the line-level parser\<close>

lemma okStatement_trim_append:
  assumes "trim l \<noteq> []" and "okStatement (trim l)"
  shows "okStatement (trim (l @ LF # rest))"
proof -
  have "\<forall>c\<in>set ''--''. \<not> isWhiteSpace c" "\<forall>c\<in>set ''PRAGMA''. \<not> isWhiteSpace c"
    by (simp_all add: isWhiteSpace_def)
  with assms show ?thesis
    unfolding okStatement_def using startsWith_trim_append by blast
qed

lemma parseLine_inv:
  assumes "parseInv st"
  shows "parseInv (parseLine st line)"
proof -
  obtain statements cur m where st: "st = (statements, cur, m)" by (cases st) auto
  from assms st have stmts: "\<forall>s\<in>set statements. okStatement s"
    and cur: "cur = [] \<or> (\<exists>l rest. trim l \<noteq> [] \<and> okStatement (trim l) \<and> cur = l @ LF # rest)"
    by (auto simp: parseInv_def)
  show ?thesis
  proof (cases "trim line = [] \<or> startsWith (trim line) ''--'' \<or> startsWith (trim line) ''PRAGMA''")
    case True
    then have "parseLine st line = st" by (auto simp: st Let_def)
    with assms show ?thesis by simp
  next
    case False
    then have okl: "trim line \<noteq> []" "okStatement (trim line)" by (auto simp: okStatement_def)
    have ex: "\<exists>l rest. trim l \<noteq> [] \<and> okStatement (trim l) \<and> cur @ line @ [LF] = l @ LF # rest"
    proof (cases "cur = []")
      case True
      with okl show ?thesis by auto
    next
      case False
      with cur obtain l rest where "trim l \<noteq> []" "okStatement (trim l)" "cur = l @ LF # rest" by blast
      then have "trim l \<noteq> [] \<and> okStatement (trim l) \<and> cur @ line @ [LF] = l @ LF # (rest @ line @ [LF])"
        by simp
      then show ?thesis by blast
    qed
    then have okcur: "okStatement (trim (cur @ line @ [LF]))"
      using okStatement_trim_append by metis
    show ?thesis
    proof (cases "endsWith (trim line) '';''")
      case True
      with False have "parseLine st line =
        ((if trim (cur @ line @ [LF]) \<noteq> [] then statements @ [trim (cur @ line @ [LF])] else statements), [], False)"
        by (simp add: st Let_def)
      with stmts okcur show ?thesis by (auto simp: parseInv_def)
    next
      case nend: False
      with False have "\<exists>m'. parseLine st line = (statements, cur @ line @ [LF], m')"
        by (auto simp: st Let_def)
      with stmts ex show ?thesis by (auto simp: parseInv_def)
    qed
  qed
qed

lemma foldl_parseLine_inv: "parseInv st \<Longrightarrow> parseInv (foldl parseLine st ls)"
  by (induction ls arbitrary: st) (simp_all add: parseLine_inv)

lemma parseSQLFile_okStatement:
  assumes "parseSQLFile file = Inr stmts" and "s \<in> set stmts"
  shows "okStatement s"
proof -
  from assms(1) obtain content where fc: "file = Some content"
    by (cases "file") (auto simp: parseSQLFile_def)
  obtain statements cur m where f: "foldl parseLine ([], [], False) (splitLF content) = (statements, cur, m)"
    by (cases "foldl parseLine ([], [], False) (splitLF content)") auto
  have "parseInv ([], [], False)" by (simp add: parseInv_def)
  then have "parseInv (statements, cur, m)" using foldl_parseLine_inv f by metis
  then have stmts: "\<forall>s\<in>set statements. okStatement s"
    and cur: "cur = [] \<or> (\<exists>l rest. trim l \<noteq> [] \<and> okStatement (trim l) \<and> cur = l @ LF # rest)"
    by (auto simp: parseInv_def)
  have "trim cur \<noteq> [] \<Longrightarrow> okStatement (trim cur)"
  proof -
    assume "trim cur \<noteq> []"
    then have "cur \<noteq> []" by (auto simp: trim_def trimStart_def trimEnd_def)
    with cur obtain l rest where "trim l \<noteq> []" "okStatement (trim l)" "cur = l @ LF # rest" by blast
    then show ?thesis using okStatement_trim_append by metis
  qed
  moreover from assms(1) have "stmts = (if trim cur \<noteq> [] then statements @ [trim cur] else statements)"
    by (simp add: parseSQLFile_def fc f)
  ultimately show ?thesis using stmts assms(2) by (auto split: if_splits)
qed

lemma parse_example:
  "parseSQLFile (Some (''PRAGMA foreign_keys = OFF;'' @ [LF] @ ''-- c'' @ [LF] @ ''SELECT 1;'' @ [LF]))
     = Inr [''SELECT 1;'']"
  by (simp add: parseSQLFile_def Let_def trim_def trimStart_def trimEnd_def isWhiteSpace_def
      startsWith_def endsWith_def)

text \<open>
  C10. Every statement returned by the line-level \<open>parseSQLFile\<close> starts with neither
  \<open>--\<close> nor \<open>PRAGMA\<close>; in particular the generated file's own foreign-key pragma is
  never among the parsed statements.
\<close>

theorem parseSQLFile_no_comment_no_pragma:
  assumes "parseSQLFile file = Inr stmts"
  shows "(\<forall>s\<in>set stmts. \<not> startsWith s ''--'' \<and> \<not> startsWith s ''PRAGMA'') \<and>
         ''PRAGMA foreign_keys = OFF;'' \<notin> set stmts"
proof
  show a: "\<forall>s\<in>set stmts. \<not> startsWith s ''--'' \<and> \<not> startsWith s ''PRAGMA''"
    using parseSQLFile_okStatement [OF assms] by (auto simp: okStatement_def)
  have "startsWith ''PRAGMA foreign_keys = OFF;'' ''PRAGMA''" by (simp add: startsWith_def)
  with a show "''PRAGMA foreign_keys = OFF;'' \<notin> set stmts" by blast
qed

theorem parseSQLFile_no_comment_no_pragma_witness:
  "parseSQLFile (Some (''PRAGMA foreign_keys = OFF;'' @ [LF] @ ''-- c'' @ [LF] @ ''SELECT 1;'' @ [LF]))
     = Inr [''SELECT 1;''] \<and>
   \<not> startsWith ''SELECT 1;'' ''--'' \<and> \<not> startsWith ''SELECT 1;'' ''PRAGMA'' \<and>
   ''PRAGMA foreign_keys = OFF;'' \<notin> set [''SELECT 1;'']"
proof -
  note t = parseSQLFile_no_comment_no_pragma [OF parse_example]
  from t have a: "\<forall>s\<in>set [''SELECT 1;'']. \<not> startsWith s ''--'' \<and> \<not> startsWith s ''PRAGMA''"
    by (rule conjunct1)
  from t have b: "''PRAGMA foreign_keys = OFF;'' \<notin> set [''SELECT 1;'']"
    by (rule conjunct2)
  from a have c: "\<not> startsWith ''SELECT 1;'' ''--'' \<and> \<not> startsWith ''SELECT 1;'' ''PRAGMA''"
    by (rule bspec) simp
  from parse_example b c show ?thesis by blast
qed

section \<open>Properties of destination cleaning\<close>

lemma executeD1RawSQL_sent:
  "executeD1RawSQL raw (d, sent) sql = (r, d', sent') \<Longrightarrow> sent' = sent @ [sql]"
  by (auto simp: executeD1RawSQL_def split: prod.splits)

lemma getAllD1Tables_sent:
  "getAllD1Tables raw (d, sent) = (ts, d', sent') \<Longrightarrow> sent' = sent @ [listTablesSQL]"
  by (auto simp: getAllD1Tables_def split: prod.splits sum.splits dest: executeD1RawSQL_sent)

lemma dropTables_sent:
  "dropTables raw (d, sent) ts = (d', sent') \<Longrightarrow> sent' = sent @ map dropTableSQL ts"
proof (induction ts arbitrary: d sent)
  case Nil
  then show ?case by simp
next
  case (Cons t ts)
  obtain r d1 sent1 where e: "executeD1RawSQL raw (d, sent) (dropTableSQL t) = (r, d1, sent1)"
    by (cases "executeD1RawSQL raw (d, sent) (dropTableSQL t)") auto
  then have "sent1 = sent @ [dropTableSQL t]" by (rule executeD1RawSQL_sent)
  moreover from Cons.prems e have "dropTables raw (d1, sent1) ts = (d', sent')" by simp
  then have "sent' = sent1 @ map dropTableSQL ts" by (rule Cons.IH)
  ultimately show ?case by simp
qed

lemma dropTableSQL_inject: "dropTableSQL a = dropTableSQL b \<Longrightarrow> a = b"
  by (simp add: dropTableSQL_def)

lemma dropTableSQL_not_other:
  "dropTableSQL t \<noteq> ''PRAGMA foreign_keys = OFF;''" "dropTableSQL t \<noteq> listTablesSQL"
  by (simp_all add: dropTableSQL_def listTablesSQL_def)

lemma cleanD1Database_sent:
  assumes "cleanD1Database raw (d, []) = (res, d', sent)"
  shows "\<exists>ts. (sent = [''PRAGMA foreign_keys = OFF;''] \<or>
               sent = [''PRAGMA foreign_keys = OFF;'', listTablesSQL] \<or>
               sent = [''PRAGMA foreign_keys = OFF;'', listTablesSQL] @
                        map dropTableSQL (filter (\<lambda>table. table \<noteq> ''_cf_KV'') ts) @ [listTablesSQL])"
proof -
  obtain r1 d1 s1 where e1: "executeD1RawSQL raw (d, []) ''PRAGMA foreign_keys = OFF;'' = (r1, d1, s1)"
    by (cases "executeD1RawSQL raw (d, []) ''PRAGMA foreign_keys = OFF;''") auto
  then have s1: "s1 = [''PRAGMA foreign_keys = OFF;'']" using executeD1RawSQL_sent by fastforce
  show ?thesis
  proof (cases r1)
    case (Inl e)
    with assms e1 s1 show ?thesis by (simp add: cleanD1Database_def)
  next
    case (Inr rr)
    obtain ex d2 s2 where e2: "getAllD1Tables raw (d1, s1) = (ex, d2, s2)"
      by (cases "getAllD1Tables raw (d1, s1)") auto
    then have s2: "s2 = s1 @ [listTablesSQL]" by (rule getAllD1Tables_sent)
    show ?thesis
    proof (cases "length ex = 0")
      case True
      with assms e1 e2 Inr s1 s2 show ?thesis by (simp add: cleanD1Database_def)
    next
      case False
      obtain d3 s3 where e3: "dropTables raw (d2, s2) (filter (\<lambda>table. table \<noteq> ''_cf_KV'') ex) = (d3, s3)"
        by (cases "dropTables raw (d2, s2) (filter (\<lambda>table. table \<noteq> ''_cf_KV'') ex)") auto
      then have s3: "s3 = s2 @ map dropTableSQL (filter (\<lambda>table. table \<noteq> ''_cf_KV'') ex)"
        by (rule dropTables_sent)
      obtain ts4 d4 s4 where e4: "getAllD1Tables raw (d3, s3) = (ts4, d4, s4)"
        by (cases "getAllD1Tables raw (d3, s3)") auto
      then have s4: "s4 = s3 @ [listTablesSQL]" by (rule getAllD1Tables_sent)
      from assms e1 e2 e3 e4 Inr False have "sent = s4"
        by (simp add: cleanD1Database_def Let_def)
      with s1 s2 s3 s4 show ?thesis by auto
    qed
  qed
qed

text \<open>
  C5. Whatever the destination answers, also when \<open>_cf_KV\<close> is among the enumerated
  tables, every request of the cleaning phase is the pragma, the table listing or a
  \<open>DROP\<close> of a table other than \<open>_cf_KV\<close>: no \<open>DROP\<close> of \<open>_cf_KV\<close> is ever sent.
\<close>

theorem cleanD1Database_never_drops_cf_KV:
  assumes "cleanD1Database raw (d, []) = (res, d', sent)"
  shows "(\<forall>sql\<in>set sent. cleaningRequest sql) \<and> dropTableSQL ''_cf_KV'' \<notin> set sent"
proof -
  from cleanD1Database_sent [OF assms] obtain ts where
    s: "sent = [''PRAGMA foreign_keys = OFF;''] \<or>
        sent = [''PRAGMA foreign_keys = OFF;'', listTablesSQL] \<or>
        sent = [''PRAGMA foreign_keys = OFF;'', listTablesSQL] @
                 map dropTableSQL (filter (\<lambda>table. table \<noteq> ''_cf_KV'') ts) @ [listTablesSQL]"
    by blast
  then have a: "\<forall>sql\<in>set sent. cleaningRequest sql"
    by (auto simp: cleaningRequest_def)
  have "\<not> cleaningRequest (dropTableSQL ''_cf_KV'')"
    using dropTableSQL_not_other dropTableSQL_inject by (auto simp: cleaningRequest_def)
  with a show ?thesis by blast
qed

lemma cleanD1Database_example:
  "cleanD1Database (\<lambda>d sql. (if sql = listTablesSQL then Inr [''users'', ''_cf_KV''] else Inr [], d)) ((), [])
     = (Inr (), (),
        [''PRAGMA foreign_keys = OFF;'', listTablesSQL, dropTableSQL ''users'', listTablesSQL])"
proof -
  have n: "''PRAGMA foreign_keys = OFF;'' \<noteq> listTablesSQL" by (simp add: listTablesSQL_def)
  show ?thesis
    using n dropTableSQL_not_other(2)
    by (simp add: cleanD1Database_def getAllD1Tables_def executeD1RawSQL_def Let_def)
qed

theorem cleanD1Database_never_drops_cf_KV_witness:
  "cleanD1Database (\<lambda>d sql. (if sql = listTablesSQL then Inr [''users'', ''_cf_KV''] else Inr [], d)) ((), [])
     = (Inr (), (),
        [''PRAGMA foreign_keys = OFF;'', listTablesSQL, dropTableSQL ''users'', listTablesSQL]) \<and>
   cleaningRequest (dropTableSQL ''users'') \<and>
   dropTableSQL ''_cf_KV'' \<notin>
     set [''PRAGMA foreign_keys = OFF;'', listTablesSQL, dropTableSQL ''users'', listTablesSQL]"
proof -
  note t = cleanD1Database_never_drops_cf_KV [OF cleanD1Database_example]
  from t have a: "\<forall>sql\<in>set [''PRAGMA foreign_keys = OFF;'', listTablesSQL, dropTableSQL ''users'',
      listTablesSQL]. cleaningRequest sql"
    by (rule conjunct1)
  from t have b: "dropTableSQL ''_cf_KV'' \<notin>
      set [''PRAGMA foreign_keys = OFF;'', listTablesSQL, dropTableSQL ''users'', listTablesSQL]"
    by (rule conjunct2)
  from a have c: "cleaningRequest (dropTableSQL ''users'')" by (rule bspec) simp
  from cleanD1Database_example b c show ?thesis by blast
qed

section \<open>Properties of the polling loop\<close>

lemma pollImport_step:
  assumes "nonTerminal (rs i)"
  shows "pollImport rs i t = pollImport rs (Suc i) (t + 5000)"
proof -
  from assms obtain a b where r: "rs i = Response True (Some (a, b))"
    and s: "orElse a (orElse b ''pending'') \<noteq> ''completed''" "orElse a (orElse b ''pending'') \<noteq> ''failed''"
    by (auto simp: nonTerminal_def reportedStatus_def split: poll_response.splits bool.splits option.splits)
  show ?thesis
    by (subst pollImport.simps) (simp add: r s Let_def)
qed

lemma pollImport_skip:
  "(\<forall>j. i \<le> j \<and> j < i + n \<longrightarrow> nonTerminal (rs j)) \<Longrightarrow>
   pollImport rs i t = pollImport rs (i + n) (t + 5000 * n)"
proof (induction n arbitrary: i t)
  case 0
  then show ?case by simp
next
  case (Suc n)
  then have "nonTerminal (rs i)" by simp
  then have "pollImport rs i t = pollImport rs (Suc i) (t + 5000)" by (rule pollImport_step)
  also have "\<dots> = pollImport rs (Suc i + n) (t + 5000 + 5000 * n)"
    using Suc.prems by (intro Suc.IH) simp
  finally show ?case by (simp add: ac_simps)
qed

lemma pollImport_completed:
  "reportedStatus (rs i) = Some ''completed'' \<Longrightarrow> pollImport rs i t = Some (Completed, i, t)"
  by (subst pollImport.simps)
    (auto simp: reportedStatus_def Let_def split: poll_response.splits bool.splits option.splits)

lemma pollImport_failed:
  "reportedStatus (rs i) = Some ''failed'' \<Longrightarrow> pollImport rs i t = Some (ProcessExit 1, i, t)"
  by (subst pollImport.simps)
    (auto simp: reportedStatus_def Let_def split: poll_response.splits bool.splits option.splits)

lemma pollImport_thrown:
  "reportedStatus (rs i) = None \<Longrightarrow> \<exists>e. pollImport rs i t = Some (Thrown e, i, t)"
  by (subst pollImport.simps)
    (auto simp: reportedStatus_def Let_def split: poll_response.splits bool.splits option.splits)

lemma pollImport_returns_terminal:
  assumes ret: "pollImport rs0 k0 t0 = Some y0"
  shows "\<exists>j. \<not> nonTerminal (rs0 j)"
proof (rule pollImport.raw_induct [where P = "\<lambda>rs k t y. \<exists>j. \<not> nonTerminal (rs j)", OF _ ret])
  fix f :: "(nat \<Rightarrow> poll_response) \<Rightarrow> nat \<Rightarrow> nat \<Rightarrow> (poll_outcome \<times> nat \<times> nat) option"
  fix rs k t y
  assume IH: "\<And>rs k t y. f rs k t = Some y \<Longrightarrow> \<exists>j. \<not> nonTerminal (rs j)"
  assume body: "(case rs k of
        AxiosError e \<Rightarrow> Some (Thrown (RequestFailed e), k, t)
      | Response success result \<Rightarrow>
          if \<not> success then Some (Thrown PollFailed, k, t)
          else
            (case result of
               None \<Rightarrow> Some (Thrown TypeError, k, t)
             | Some (status_field, state_field) \<Rightarrow>
                 (let status = orElse status_field (orElse state_field ''pending'') in
                  if status = ''completed'' then Some (Completed, k, t)
                  else if status = ''failed'' then Some (ProcessExit 1, k, t)
                  else f rs (k + 1) (t + 5000)))) = Some y"
  show "\<exists>j. \<not> nonTerminal (rs j)"
  proof (cases "nonTerminal (rs k)")
    case False
    then show ?thesis by blast
  next
    case True
    then obtain a b where r: "rs k = Response True (Some (a, b))"
      and s: "orElse a (orElse b ''pending'') \<noteq> ''completed''" "orElse a (orElse b ''pending'') \<noteq> ''failed''"
      by (auto simp: nonTerminal_def reportedStatus_def split: poll_response.splits bool.splits option.splits)
    from body have "f rs (k + 1) (t + 5000) = Some y"
      by (simp add: r s Let_def)
    then show ?thesis by (rule IH)
  qed
qed

lemma pollImport_forever:
  "(\<forall>j. nonTerminal (rs j)) \<Longrightarrow> pollImport rs k t = None"
  using pollImport_returns_terminal [of rs k t] by (cases "pollImport rs k t") auto

lemma pollImport_Completed_only:
  assumes "pollImport rs 0 0 = Some (Completed, n, t)"
  shows "reportedStatus (rs n) = Some ''completed'' \<and> (\<forall>j<n. nonTerminal (rs j)) \<and> t = 5000 * n"
proof -
  from assms obtain j where "\<not> nonTerminal (rs j)" using pollImport_returns_terminal by blast
  define m where "m = (LEAST j. \<not> nonTerminal (rs j))"
  have m: "\<not> nonTerminal (rs m)" unfolding m_def using \<open>\<not> nonTerminal (rs j)\<close> by (rule LeastI)
  have before: "\<forall>j<m. nonTerminal (rs j)" unfolding m_def using not_less_Least by blast
  then have eq: "pollImport rs 0 0 = pollImport rs m (5000 * m)"
    using pollImport_skip [of 0 m rs 0] by simp
  consider "reportedStatus (rs m) = None" | "reportedStatus (rs m) = Some ''completed''"
    | "reportedStatus (rs m) = Some ''failed''"
    using m by (cases "reportedStatus (rs m)") (auto simp: nonTerminal_def)
  then show ?thesis
  proof cases
    case 1
    then obtain e where "pollImport rs m (5000 * m) = Some (Thrown e, m, 5000 * m)"
      using pollImport_thrown by blast
    with eq assms show ?thesis by simp
  next
    case 2
    then have "pollImport rs m (5000 * m) = Some (Completed, m, 5000 * m)"
      by (rule pollImport_completed)
    with eq assms have "n = m" "t = 5000 * m" by simp_all
    with 2 before show ?thesis by simp
  next
    case 3
    then have "pollImport rs m (5000 * m) = Some (ProcessExit 1, m, 5000 * m)"
      by (rule pollImport_failed)
    with eq assms show ?thesis by simp
  qed
qed

text \<open>
  C7. \<open>pollImport\<close> ends successfully only at a response that reports
  \<open>completed\<close>, reached after non-terminal responses only, with 5000 ms slept per
  earlier poll; a response that reports \<open>failed\<close> exits the process with code 1; and
  when every response reports a non-terminal status the loop never returns.
\<close>

theorem pollImport_termination:
  "(pollImport responses 0 0 = Some (Completed, n, t) \<longrightarrow>
      reportedStatus (responses n) = Some ''completed'' \<and> (\<forall>j<n. nonTerminal (responses j)) \<and>
      t = 5000 * n) \<and>
   ((\<forall>j<n. nonTerminal (responses j)) \<and> reportedStatus (responses n) = Some ''completed'' \<longrightarrow>
      pollImport responses 0 0 = Some (Completed, n, 5000 * n)) \<and>
   ((\<forall>j<n. nonTerminal (responses j)) \<and> reportedStatus (responses n) = Some ''failed'' \<longrightarrow>
      pollImport responses 0 0 = Some (ProcessExit 1, n, 5000 * n)) \<and>
   ((\<forall>j. nonTerminal (responses j)) \<longrightarrow> pollImport responses 0 0 = None)"
proof (intro conjI impI)
  assume "pollImport responses 0 0 = Some (Completed, n, t)"
  then have *: "reportedStatus (responses n) = Some ''completed'' \<and>
      (\<forall>j<n. nonTerminal (responses j)) \<and> t = 5000 * n"
    by (rule pollImport_Completed_only)
  from * show "reportedStatus (responses n) = Some ''completed''" by blast
  from * show "\<forall>j<n. nonTerminal (responses j)" by blast
  from * show "t = 5000 * n" by blast
next
  assume a: "(\<forall>j<n. nonTerminal (responses j)) \<and> reportedStatus (responses n) = Some ''completed''"
  then have "pollImport responses 0 0 = pollImport responses n (5000 * n)"
    using pollImport_skip [of 0 n responses 0] by simp
  with a show "pollImport responses 0 0 = Some (Completed, n, 5000 * n)"
    by (simp add: pollImport_completed)
next
  assume a: "(\<forall>j<n. nonTerminal (responses j)) \<and> reportedStatus (responses n) = Some ''failed''"
  then have "pollImport responses 0 0 = pollImport responses n (5000 * n)"
    using pollImport_skip [of 0 n responses 0] by simp
  with a show "pollImport responses 0 0 = Some (ProcessExit 1, n, 5000 * n)"
    by (simp add: pollImport_failed)
next
  assume "\<forall>j. nonTerminal (responses j)"
  then show "pollImport responses 0 0 = None" by (rule pollImport_forever)
qed

theorem pollImport_termination_witness:
  "pollImport (\<lambda>k. if k < 2 then Response True (Some (Some ''pending'', None))
                  else Response True (Some (Some ''completed'', None))) 0 0
     = Some (Completed, 2, 10000) \<and>
   pollImport (\<lambda>k. if k < 1 then Response True (Some (None, Some ''running''))
                  else Response True (Some (Some ''failed'', None))) 0 0
     = Some (ProcessExit 1, 1, 5000) \<and>
   pollImport (\<lambda>k. Response True (Some (None, None))) 0 0 = None"
proof (intro conjI)
  let ?r1 = "\<lambda>k::nat. if k < 2 then Response True (Some (Some ''pending'', None))
                  else Response True (Some (Some ''completed'', None))"
  have h1: "(\<forall>j<2. nonTerminal (?r1 j)) \<and> reportedStatus (?r1 2) = Some ''completed''"
    by (simp add: nonTerminal_def reportedStatus_def)
  with pollImport_termination [of ?r1 2 0]
  have "pollImport ?r1 0 0 = Some (Completed, 2, 5000 * 2)" by blast
  then show "pollImport ?r1 0 0 = Some (Completed, 2, 10000)" by simp
next
  let ?r2 = "\<lambda>k::nat. if k < 1 then Response True (Some (None, Some ''running''))
                  else Response True (Some (Some ''failed'', None))"
  have h2: "(\<forall>j<1. nonTerminal (?r2 j)) \<and> reportedStatus (?r2 1) = Some ''failed''"
    by (simp add: nonTerminal_def reportedStatus_def)
  with pollImport_termination [of ?r2 1 0]
  have "pollImport ?r2 0 0 = Some (ProcessExit 1, 1, 5000 * 1)" by blast
  then show "pollImport ?r2 0 0 = Some (ProcessExit 1, 1, 5000)" by simp
next
  let ?r3 = "\<lambda>k::nat. Response True (Some (None, None))"
  have h3: "\<forall>j. nonTerminal (?r3 j)"
    by (simp add: nonTerminal_def reportedStatus_def)
  with pollImport_termination [of ?r3 0 0]
  show "pollImport ?r3 0 0 = None" by blast
qed

section \<open>Properties of the Schema Translator\<close>










section \<open>Properties of the Statement Generator\<close>

lemma schemaLoop_Inr:
  "schemaLoop src ts (st, c) = Inr (st', c') \<Longrightarrow> st' = st @ map (schemaOf src) ts"
proof (induction ts arbitrary: st c)
  case Nil
  then show ?case by simp
next
  case (Cons u ts)
  from Cons.prems obtain cols where d: "describeQuery src u = Inr cols"
    by (cases "describeQuery src u") auto
  from Cons.prems d obtain fks where f: "getForeignKeys src u = Inr fks"
    by (cases "getForeignKeys src u") auto
  from Cons.prems d f have nt: "\<not> list_ex defaultThrows cols"
    by (cases "list_ex defaultThrows cols") auto
  from Cons.prems d f nt have
    "schemaLoop src ts (st @ [createTableSQL u cols fks], c @ [Log (''Generating schema for table: '' @ u)])
       = Inr (st', c')"
    by simp
  then have "st' = (st @ [createTableSQL u cols fks]) @ map (schemaOf src) ts" by (rule Cons.IH)
  then show ?case by (simp add: schemaOf_def d f)
qed

lemma schemaLoop_returns:
  assumes "\<forall>u\<in>set ts. schemaSucceeds src u"
  shows "\<exists>st' c'. schemaLoop src ts (st, c) = Inr (st', c')"
  using assms
proof (induction ts arbitrary: st c)
  case Nil
  then show ?case by simp
next
  case (Cons u ts)
  from Cons.prems have u: "schemaSucceeds src u" by simp
  then obtain cols where d: "describeQuery src u = Inr cols"
    by (cases "describeQuery src u") (simp_all add: schemaSucceeds_def)
  from u d obtain rows where f: "foreignKeysQuery src u = Inr rows"
    by (cases "foreignKeysQuery src u") (simp_all add: schemaSucceeds_def)
  from u d f have nt: "\<not> list_ex defaultThrows cols" by (simp add: schemaSucceeds_def)
  from f obtain fks where g: "getForeignKeys src u = Inr fks" by (simp add: getForeignKeys_def)
  from Cons.prems have "\<forall>u\<in>set ts. schemaSucceeds src u" by simp
  from Cons.IH [OF this] show ?case by (simp add: d g nt)
qed

lemma rowLoop_char:
  "rowLoop t cm rows st =
     (if list_ex rowThrows rows
      then Inl (CannotConvert, st @ map (insertSQL t cm) (takeWhile (\<lambda>row. \<not> rowThrows row) rows))
      else Inr (st @ map (insertSQL t cm) rows))"
  by (induction rows arbitrary: st) simp_all

lemma takeWhile_no_throw: "\<not> list_ex rowThrows rows \<Longrightarrow> takeWhile (\<lambda>row. \<not> rowThrows row) rows = rows"
  by (induction rows) simp_all

lemma dataStep_char:
  "dataStep src (st, n, c) u =
     (st @ tableInserts src u, n + tableRows src u, c @ dataLog src u)"
proof (cases "selectAllQuery src u")
  case (Inl e)
  then show ?thesis by (simp add: dataStep_def tableInserts_def tableRows_def dataLog_def)
next
  case (Inr rows)
  note r = this
  show ?thesis
  proof (cases "describeQuery src u")
    case (Inl e)
    with r show ?thesis by (simp add: dataStep_def tableInserts_def tableRows_def dataLog_def)
  next
    case (Inr cm)
    note d = this
    show ?thesis
    proof (cases "rows = []")
      case True
      with r d show ?thesis by (simp add: dataStep_def tableInserts_def tableRows_def dataLog_def)
    next
      case False
      note ne = this
      show ?thesis
      proof (cases "list_ex rowThrows rows")
        case True
        with r d ne show ?thesis
          by (simp add: dataStep_def tableInserts_def tableRows_def dataLog_def rowLoop_char)
      next
        case False
        with r d ne show ?thesis
          by (simp add: dataStep_def tableInserts_def tableRows_def dataLog_def rowLoop_char
              takeWhile_no_throw)
      qed
    qed
  qed
qed

lemma foldl_dataStep_char:
  "foldl (dataStep src) (st, n, c) ts =
     (st @ concat (map (tableInserts src) ts), n + sum_list (map (tableRows src) ts),
      c @ concat (map (dataLog src) ts))"
  by (induction ts arbitrary: st n c) (simp_all add: dataStep_char)

lemma generateSQLFile_unfold:
  assumes "tableNamesQuery src = Inr tableNames"
    and "schemaLoop src tableNames
           (header now, [Log (''Found '' @ showNat (length tableNames) @ '' tables to migrate'')])
         = Inr (st1, c1)"
  shows "generateSQLFile src now =
     Inr \<lparr>gen_count = Suc (length (st1 @ concat (map (tableInserts src) tableNames))),
          gen_statements = (st1 @ concat (map (tableInserts src) tableNames)) @
            [summaryComment (length tableNames) (sum_list (map (tableRows src) tableNames))],
          gen_content = join [LF] ((st1 @ concat (map (tableInserts src) tableNames)) @
            [summaryComment (length tableNames) (sum_list (map (tableRows src) tableNames))]) @ [LF],
          gen_console = (c1 @ concat (map (dataLog src) tableNames)) @
            [Log ''SQL file generated: ./temp/migration.sql'',
             Log (''Total statements: '' @
                  showNat (Suc (length (st1 @ concat (map (tableInserts src) tableNames))))),
             Log (''Total data rows: '' @ showNat (sum_list (map (tableRows src) tableNames)))],
          gen_report =
            [Log ''SQL file generated: ./temp/migration.sql'',
             Log (''Total statements: '' @
                  showNat (Suc (length (st1 @ concat (map (tableInserts src) tableNames))))),
             Log (''Total data rows: '' @ showNat (sum_list (map (tableRows src) tableNames)))]\<rparr>"
  by (simp only: generateSQLFile_def assms foldl_dataStep_char sum.case prod.case Let_def add_0
      length_append list.size add_Suc_right add_0_right)

lemma generateSQLFile_statements:
  assumes "generateSQLFile src now = Inr g"
  shows "\<exists>tableNames c1. tableNamesQuery src = Inr tableNames \<and>
     gen_statements g = header now @ map (schemaOf src) tableNames @
       concat (map (tableInserts src) tableNames) @
       [summaryComment (length tableNames) (sum_list (map (tableRows src) tableNames))] \<and>
     gen_count g = length (gen_statements g) \<and>
     gen_console g = c1 @ concat (map (dataLog src) tableNames) @ gen_report g \<and>
     gen_report g = [Log ''SQL file generated: ./temp/migration.sql'',
                     Log (''Total statements: '' @ showNat (gen_count g)),
                     Log (''Total data rows: '' @ showNat (sum_list (map (tableRows src) tableNames)))]"
proof -
  from assms obtain tableNames where t: "tableNamesQuery src = Inr tableNames"
    by (cases "tableNamesQuery src") (simp_all add: generateSQLFile_def)
  let ?c0 = "[Log (''Found '' @ showNat (length tableNames) @ '' tables to migrate'')]"
  from assms t obtain p where "schemaLoop src tableNames (header now, ?c0) = Inr p"
    by (cases "schemaLoop src tableNames (header now, ?c0)") (simp_all add: generateSQLFile_def)
  then obtain st1 c1 where s: "schemaLoop src tableNames (header now, ?c0) = Inr (st1, c1)"
    by (cases p) auto
  then have st1: "st1 = header now @ map (schemaOf src) tableNames" by (rule schemaLoop_Inr)
  note g = assms [unfolded generateSQLFile_unfold [OF t s], simplified, symmetric]
  have 1: "gen_statements g = header now @ map (schemaOf src) tableNames @
       concat (map (tableInserts src) tableNames) @
       [summaryComment (length tableNames) (sum_list (map (tableRows src) tableNames))]"
    by (subst g) (simp add: st1)
  have 2: "gen_count g = length (gen_statements g)" by (subst g, subst g) simp
  have 3: "gen_report g = [Log ''SQL file generated: ./temp/migration.sql'',
                     Log (''Total statements: '' @ showNat (gen_count g)),
                     Log (''Total data rows: '' @ showNat (sum_list (map (tableRows src) tableNames)))]"
    by (subst g, subst g) simp
  have 4: "gen_console g = c1 @ concat (map (dataLog src) tableNames) @ gen_report g"
    by (subst g, subst g) simp
  from t 1 2 3 4 show ?thesis by blast
qed

lemma generateSQLFile_returns:
  assumes "tableNamesQuery src = Inr tableNames"
    and "\<forall>u\<in>set tableNames. schemaSucceeds src u"
  shows "\<exists>g. generateSQLFile src now = Inr g"
proof -
  let ?c0 = "[Log (''Found '' @ showNat (length tableNames) @ '' tables to migrate'')]"
  obtain st1 c1 where s: "schemaLoop src tableNames (header now, ?c0) = Inr (st1, c1)"
    using schemaLoop_returns [OF assms(2)] by blast
  show ?thesis
    unfolding generateSQLFile_unfold [OF assms(1) s] by blast
qed

text \<open>
  C9. Whenever \<open>generateSQLFile\<close> returns, the returned count is the number of
  statements and is at least 4: the stream begins with the pragma and the two header
  comments and ends with the summary comment; so the callers' guard for a zero count
  never fires.
\<close>

theorem generateSQLFile_count_at_least_4:
  assumes "generateSQLFile src now = Inr g"
  shows "4 \<le> gen_count g \<and> gen_count g = length (gen_statements g) \<and>
         take 3 (gen_statements g) =
           [''PRAGMA foreign_keys = OFF;'', ''-- Generated from MySQL to SQLite migration'',
            ''-- Generated on: '' @ now] \<and>
         startsWith (last (gen_statements g)) ''-- Migration completed: '' \<and>
         \<not> noStatementsGenerated (gen_count g)"
proof -
  from generateSQLFile_statements [OF assms] obtain tableNames c1 where
    s: "gen_statements g = header now @ map (schemaOf src) tableNames @
       concat (map (tableInserts src) tableNames) @
       [summaryComment (length tableNames) (sum_list (map (tableRows src) tableNames))]"
    and c: "gen_count g = length (gen_statements g)" by blast
  have "length (gen_statements g) \<ge> 4" by (simp add: s header_def)
  moreover have "take 3 (gen_statements g) = header now" by (simp add: s header_def)
  moreover have "last (gen_statements g) =
      summaryComment (length tableNames) (sum_list (map (tableRows src) tableNames))"
    by (simp add: s)
  moreover have "startsWith (summaryComment a b) ''-- Migration completed: ''" for a b
    by (simp add: startsWith_def summaryComment_def)
  ultimately show ?thesis using c by (auto simp: header_def noStatementsGenerated_def)
qed

lemma noTables_run:
  "generateSQLFile noTablesSource ''T'' =
     Inr \<lparr>gen_count = 4,
          gen_statements = [''PRAGMA foreign_keys = OFF;'', ''-- Generated from MySQL to SQLite migration'',
                            ''-- Generated on: T'', ''-- Migration completed: 0 tables, 0 rows''],
          gen_content = join [LF] [''PRAGMA foreign_keys = OFF;'',
                                   ''-- Generated from MySQL to SQLite migration'',
                                   ''-- Generated on: T'', ''-- Migration completed: 0 tables, 0 rows''] @ [LF],
          gen_console = [Log ''Found 0 tables to migrate'', Log ''SQL file generated: ./temp/migration.sql'',
                         Log ''Total statements: 4'', Log ''Total data rows: 0''],
          gen_report = [Log ''SQL file generated: ./temp/migration.sql'', Log ''Total statements: 4'',
                        Log ''Total data rows: 0'']\<rparr>"
  by (simp add: generateSQLFile_def noTablesSource_def header_def summaryComment_def Let_def)

theorem generateSQLFile_count_at_least_4_witness:
  "generateSQLFile noTablesSource ''T'' =
     Inr \<lparr>gen_count = 4,
          gen_statements = [''PRAGMA foreign_keys = OFF;'', ''-- Generated from MySQL to SQLite migration'',
                            ''-- Generated on: T'', ''-- Migration completed: 0 tables, 0 rows''],
          gen_content = join [LF] [''PRAGMA foreign_keys = OFF;'',
                                   ''-- Generated from MySQL to SQLite migration'',
                                   ''-- Generated on: T'', ''-- Migration completed: 0 tables, 0 rows''] @ [LF],
          gen_console = [Log ''Found 0 tables to migrate'', Log ''SQL file generated: ./temp/migration.sql'',
                         Log ''Total statements: 4'', Log ''Total data rows: 0''],
          gen_report = [Log ''SQL file generated: ./temp/migration.sql'', Log ''Total statements: 4'',
                        Log ''Total data rows: 0'']\<rparr> \<and>
   (4::nat) \<le> 4 \<and> \<not> noStatementsGenerated 4 \<and>
   startsWith ''-- Migration completed: 0 tables, 0 rows'' ''-- Migration completed: ''"
proof -
  note t = generateSQLFile_count_at_least_4 [OF noTables_run]
  from t have a: "\<not> noStatementsGenerated 4" by simp
  from t have b: "startsWith ''-- Migration completed: 0 tables, 0 rows'' ''-- Migration completed: ''"
    by simp
  from noTables_run a b show ?thesis by simp
qed

lemma emptied_same:
  assumes "selectAllQuery src t = Inl e"
  shows "tableInserts (src\<lparr>selectAllQuery := (selectAllQuery src)(t := Inr [])\<rparr>) u = tableInserts src u"
    and "tableRows (src\<lparr>selectAllQuery := (selectAllQuery src)(t := Inr [])\<rparr>) u = tableRows src u"
    and "schemaOf (src\<lparr>selectAllQuery := (selectAllQuery src)(t := Inr [])\<rparr>) u = schemaOf src u"
    and "schemaSucceeds (src\<lparr>selectAllQuery := (selectAllQuery src)(t := Inr [])\<rparr>) u = schemaSucceeds src u"
  using assms
  by (auto simp: tableInserts_def tableRows_def schemaOf_def schemaSucceeds_def getForeignKeys_def
      split: sum.splits)

text \<open>
  The run of the second example: of the two rows of \<open>t\<close> the second cannot be encoded.
  The \<open>INSERT\<close> of the first row stays in the stream, no row of \<open>t\<close> is counted, and the
  run goes on to \<open>u\<close>: eight statements, and a summary of one row.
\<close>

lemma unprintable_row_run:
  "\<exists>g. generateSQLFile unprintableSource ''T'' = Inr g \<and>
     gen_statements g = header ''T'' @ map (schemaOf unprintableSource) [''t'', ''u''] @
       [''INSERT INTO '' @ [DQ] @ ''t'' @ [DQ] @ '' ('' @ [DQ] @ ''id'' @ [DQ] @ '') VALUES (1);'',
        ''INSERT INTO '' @ [DQ] @ ''u'' @ [DQ] @ '' ('' @ [DQ] @ ''id'' @ [DQ] @ '') VALUES (1);'',
        ''-- Migration completed: 2 tables, 1 rows''] \<and>
     gen_count g = 8 \<and>
     Error (''Error generating data for table t: Cannot convert object to primitive value'')
       \<in> set (gen_console g)"
proof -
  have t: "tableNamesQuery unprintableSource = Inr [''t'', ''u'']"
    by (simp add: unprintableSource_def)
  have c: "\<forall>u\<in>set [''t'', ''u'']. schemaSucceeds unprintableSource u"
    by (simp add: unprintableSource_def schemaSucceeds_def defaultThrows_def)
  obtain g where g: "generateSQLFile unprintableSource ''T'' = Inr g"
    using generateSQLFile_returns [OF t c] by blast
  from generateSQLFile_statements [OF g] obtain tn c1 where
    tn: "tableNamesQuery unprintableSource = Inr tn"
    and s: "gen_statements g = header ''T'' @ map (schemaOf unprintableSource) tn @
       concat (map (tableInserts unprintableSource) tn) @
       [summaryComment (length tn) (sum_list (map (tableRows unprintableSource) tn))]"
    and n: "gen_count g = length (gen_statements g)"
    and k: "gen_console g = c1 @ concat (map (dataLog unprintableSource) tn) @ gen_report g"
    by blast
  from tn t have eq: "tn = [''t'', ''u'']" by simp
  have it: "tableInserts unprintableSource ''t'' =
      [''INSERT INTO '' @ [DQ] @ ''t'' @ [DQ] @ '' ('' @ [DQ] @ ''id'' @ [DQ] @ '') VALUES (1);'']"
    and iu: "tableInserts unprintableSource ''u'' =
      [''INSERT INTO '' @ [DQ] @ ''u'' @ [DQ] @ '' ('' @ [DQ] @ ''id'' @ [DQ] @ '') VALUES (1);'']"
    by (simp_all add: tableInserts_def unprintableSource_def insertSQL_def encodeValue_def rowThrows_def
        toLowerCase_def toLowerChar_def Let_def)
  have rt: "tableRows unprintableSource ''t'' = 0" and ru: "tableRows unprintableSource ''u'' = 1"
    by (simp_all add: tableRows_def unprintableSource_def rowThrows_def)
  have sm: "summaryComment (length [''t'', ''u'']) 1 = ''-- Migration completed: 2 tables, 1 rows''"
    by (simp add: summaryComment_def)
  have rows: "sum_list (map (tableRows unprintableSource) [''t'', ''u'']) = 1" by (simp add: rt ru)
  have ins: "concat (map (tableInserts unprintableSource) [''t'', ''u'']) =
      [''INSERT INTO '' @ [DQ] @ ''t'' @ [DQ] @ '' ('' @ [DQ] @ ''id'' @ [DQ] @ '') VALUES (1);'',
       ''INSERT INTO '' @ [DQ] @ ''u'' @ [DQ] @ '' ('' @ [DQ] @ ''id'' @ [DQ] @ '') VALUES (1);'']"
    by (simp add: it iu)
  have s': "gen_statements g = header ''T'' @ map (schemaOf unprintableSource) [''t'', ''u''] @
       [''INSERT INTO '' @ [DQ] @ ''t'' @ [DQ] @ '' ('' @ [DQ] @ ''id'' @ [DQ] @ '') VALUES (1);'',
        ''INSERT INTO '' @ [DQ] @ ''u'' @ [DQ] @ '' ('' @ [DQ] @ ''id'' @ [DQ] @ '') VALUES (1);'',
        ''-- Migration completed: 2 tables, 1 rows'']"
    unfolding s eq rows ins sm by simp
  have n': "gen_count g = 8" unfolding n s' by (simp add: header_def)
  have "dataLog unprintableSource ''t'' =
      [Log ''Generating data for table: t'',
       Error ''Error generating data for table t: Cannot convert object to primitive value'']"
    by (simp add: dataLog_def unprintableSource_def rowThrows_def)
  then have "Error ''Error generating data for table t: Cannot convert object to primitive value''
      \<in> set (gen_console g)"
    unfolding k eq by simp
  with g s' n' show ?thesis by blast
qed

text \<open>
  C6, as the code has it. When the schema phase succeeds and the row query of one table
  throws, \<open>generateSQLFile\<close> still returns: the statement stream is the header, the
  schema of every table, the inserts of every table (none for the failing one, those of
  the others as their own rows give them) and the summary comment, whose row total counts
  no row of the failing table; the failure is written to the error console when it
  happens. Nothing else records it: the statements, the returned count and the closing
  console lines are those of the run in which the failing table is empty.
\<close>

theorem generateSQLFile_fetch_failure:
  assumes "tableNamesQuery src = Inr tableNames"
    and "\<forall>u\<in>set tableNames. schemaSucceeds src u"
    and "t \<in> set tableNames"
    and "selectAllQuery src t = Inl e"
  shows "\<exists>g g'. generateSQLFile src now = Inr g \<and>
     tableInserts src t = [] \<and> tableRows src t = 0 \<and>
     gen_statements g = header now @ map (schemaOf src) tableNames @
       concat (map (tableInserts src) tableNames) @
       [summaryComment (length tableNames) (sum_list (map (tableRows src) tableNames))] \<and>
     gen_count g = length (gen_statements g) \<and>
     Error (''Error generating data for table '' @ t @ '': '' @ errorMessage e) \<in> set (gen_console g) \<and>
     generateSQLFile (src\<lparr>selectAllQuery := (selectAllQuery src)(t := Inr [])\<rparr>) now = Inr g' \<and>
     gen_statements g' = gen_statements g \<and> gen_count g' = gen_count g \<and> gen_report g' = gen_report g"
proof -
  let ?src' = "src\<lparr>selectAllQuery := (selectAllQuery src)(t := Inr [])\<rparr>"
  obtain g where g: "generateSQLFile src now = Inr g"
    using generateSQLFile_returns [OF assms(1,2)] by blast
  from generateSQLFile_statements [OF g] obtain tn c1 where
    tn: "tableNamesQuery src = Inr tn"
    and s: "gen_statements g = header now @ map (schemaOf src) tn @
       concat (map (tableInserts src) tn) @
       [summaryComment (length tn) (sum_list (map (tableRows src) tn))]"
    and n: "gen_count g = length (gen_statements g)"
    and c: "gen_console g = c1 @ concat (map (dataLog src) tn) @ gen_report g"
    and r: "gen_report g = [Log ''SQL file generated: ./temp/migration.sql'',
                     Log (''Total statements: '' @ showNat (gen_count g)),
                     Log (''Total data rows: '' @ showNat (sum_list (map (tableRows src) tn)))]"
    by blast
  from tn assms(1) have eq: "tn = tableNames" by simp
  have i: "tableInserts src t = []" using assms(4) by (simp add: tableInserts_def)
  have z: "tableRows src t = 0" using assms(4) by (simp add: tableRows_def)
  let ?err = "Error (''Error generating data for table '' @ t @ '': '' @ errorMessage e)"
  have "?err \<in> set (dataLog src t)"
    unfolding dataLog_def assms(4) by simp
  moreover have "set (dataLog src t) \<subseteq> set (concat (map (dataLog src) tableNames))"
    using assms(3) by auto
  ultimately have "?err \<in> set (concat (map (dataLog src) tableNames))" by blast
  then have m: "?err \<in> set (gen_console g)"
    unfolding c eq by simp
  have same: "tableInserts ?src' = tableInserts src" "tableRows ?src' = tableRows src"
    "schemaOf ?src' = schemaOf src" "schemaSucceeds ?src' = schemaSucceeds src"
    using emptied_same [OF assms(4)] by auto
  have t': "tableNamesQuery ?src' = Inr tableNames" using assms(1) by simp
  have c': "\<forall>u\<in>set tableNames. schemaSucceeds ?src' u" unfolding same by (rule assms(2))
  obtain g' where g': "generateSQLFile ?src' now = Inr g'"
    using generateSQLFile_returns [OF t' c'] by blast
  from generateSQLFile_statements [OF g'] obtain tn' c1' where
    tn': "tableNamesQuery ?src' = Inr tn'"
    and s': "gen_statements g' = header now @ map (schemaOf ?src') tn' @
       concat (map (tableInserts ?src') tn') @
       [summaryComment (length tn') (sum_list (map (tableRows ?src') tn'))]"
    and n': "gen_count g' = length (gen_statements g')"
    and r': "gen_report g' = [Log ''SQL file generated: ./temp/migration.sql'',
                     Log (''Total statements: '' @ showNat (gen_count g')),
                     Log (''Total data rows: '' @ showNat (sum_list (map (tableRows ?src') tn')))]"
    by blast
  from tn' t' have eq': "tn' = tableNames" by simp
  have ss: "gen_statements g' = gen_statements g" unfolding s s' eq eq' same ..
  have nn: "gen_count g' = gen_count g" unfolding n n' ss ..
  have rr: "gen_report g' = gen_report g" unfolding r r' nn eq eq' same ..
  from g i z s [unfolded eq] n m g' ss nn rr show ?thesis by blast
qed

lemma failingSource_queries:
  "tableNamesQuery failingSource = Inr [''a'', ''b'']"
  "\<forall>u\<in>set [''a'', ''b'']. schemaSucceeds failingSource u"
  "selectAllQuery failingSource ''a'' = Inl (RequestFailed ''gone'')"
  "tableNamesQuery emptiedSource = Inr [''a'', ''b'']"
  "\<forall>u\<in>set [''a'', ''b'']. schemaSucceeds emptiedSource u"
  "selectAllQuery emptiedSource ''a'' = Inr []"
  by (simp_all add: failingSource_def emptiedSource_def schemaSucceeds_def defaultThrows_def)

lemma example_inserts:
  "tableInserts failingSource ''a'' = []"
  "tableInserts emptiedSource ''a'' = []"
  "tableInserts failingSource ''b'' = [''INSERT INTO '' @ [DQ] @ ''b'' @ [DQ] @ '' ('' @ [DQ] @ ''id'' @ [DQ] @ '') VALUES (1);'']"
  "tableInserts emptiedSource ''b'' = tableInserts failingSource ''b''"
  by (simp_all add: tableInserts_def failingSource_def emptiedSource_def insertSQL_def encodeValue_def
      rowThrows_def toLowerCase_def toLowerChar_def Let_def)

lemma example_rows:
  "tableRows failingSource ''a'' = 0"
  "tableRows emptiedSource ''a'' = 0"
  "tableRows failingSource ''b'' = 1"
  "tableRows emptiedSource ''b'' = 1"
  by (simp_all add: tableRows_def failingSource_def emptiedSource_def rowThrows_def)

lemma example_schemas:
  "schemaOf emptiedSource u = schemaOf failingSource u"
  by (simp add: schemaOf_def getForeignKeys_def failingSource_def emptiedSource_def)

lemma showNat_digits: "showNat 0 = ''0''" "showNat 1 = ''1''" "showNat 2 = ''2''" "showNat 7 = ''7''"
  by simp_all

lemma example_runs:
  "\<exists>g. generateSQLFile failingSource ''T'' = Inr g \<and>
     gen_statements g = header ''T'' @ map (schemaOf failingSource) [''a'', ''b''] @
       tableInserts failingSource ''b'' @ [''-- Migration completed: 2 tables, 1 rows''] \<and>
     gen_count g = 7 \<and>
     gen_report g = [Log ''SQL file generated: ./temp/migration.sql'', Log ''Total statements: 7'',
                     Log ''Total data rows: 1'']"
  "\<exists>g. generateSQLFile emptiedSource ''T'' = Inr g \<and>
     gen_statements g = header ''T'' @ map (schemaOf failingSource) [''a'', ''b''] @
       tableInserts failingSource ''b'' @ [''-- Migration completed: 2 tables, 1 rows''] \<and>
     gen_count g = 7 \<and>
     gen_report g = [Log ''SQL file generated: ./temp/migration.sql'', Log ''Total statements: 7'',
                     Log ''Total data rows: 1'']"
proof -
  have run: "\<exists>g. generateSQLFile src ''T'' = Inr g \<and>
     gen_statements g = header ''T'' @ map (schemaOf failingSource) [''a'', ''b''] @
       tableInserts failingSource ''b'' @ [''-- Migration completed: 2 tables, 1 rows''] \<and>
     gen_count g = 7 \<and>
     gen_report g = [Log ''SQL file generated: ./temp/migration.sql'', Log ''Total statements: 7'',
                     Log ''Total data rows: 1'']"
    if t: "tableNamesQuery src = Inr [''a'', ''b'']"
      and c: "\<forall>u\<in>set [''a'', ''b'']. schemaSucceeds src u"
      and a: "tableInserts src ''a'' = []"
      and b: "tableInserts src ''b'' = tableInserts failingSource ''b''"
      and ra: "tableRows src ''a'' = 0"
      and rb: "tableRows src ''b'' = 1"
      and sc: "\<And>u. schemaOf src u = schemaOf failingSource u"
    for src
  proof -
    obtain g where g: "generateSQLFile src ''T'' = Inr g"
      using generateSQLFile_returns [OF t c] by blast
    from generateSQLFile_statements [OF g] obtain tn c1 where
      tn: "tableNamesQuery src = Inr tn"
      and s: "gen_statements g = header ''T'' @ map (schemaOf src) tn @
         concat (map (tableInserts src) tn) @
         [summaryComment (length tn) (sum_list (map (tableRows src) tn))]"
      and n: "gen_count g = length (gen_statements g)"
      and r: "gen_report g = [Log ''SQL file generated: ./temp/migration.sql'',
                     Log (''Total statements: '' @ showNat (gen_count g)),
                     Log (''Total data rows: '' @ showNat (sum_list (map (tableRows src) tn)))]"
      by blast
    from tn t have eq: "tn = [''a'', ''b'']" by simp
    have ins: "concat (map (tableInserts src) [''a'', ''b'']) = tableInserts failingSource ''b''"
      by (simp add: a b)
    have rows: "sum_list (map (tableRows src) [''a'', ''b'']) = 1" by (simp add: ra rb)
    have one: "length (tableInserts failingSource ''b'') = 1" by (simp add: example_inserts(3))
    have sm: "summaryComment (length [''a'', ''b'']) 1 = ''-- Migration completed: 2 tables, 1 rows''"
      by (simp add: summaryComment_def)
    have s': "gen_statements g = header ''T'' @ map (schemaOf failingSource) [''a'', ''b''] @
       tableInserts failingSource ''b'' @ [''-- Migration completed: 2 tables, 1 rows'']"
      unfolding s eq ins rows sm by (simp add: sc)
    have n': "gen_count g = 7" unfolding n s' by (simp add: header_def one)
    have r': "gen_report g = [Log ''SQL file generated: ./temp/migration.sql'', Log ''Total statements: 7'',
                     Log ''Total data rows: 1'']"
      unfolding r eq rows n' by simp
    from g s' n' r' show ?thesis by blast
  qed
  show "\<exists>g. generateSQLFile failingSource ''T'' = Inr g \<and>
     gen_statements g = header ''T'' @ map (schemaOf failingSource) [''a'', ''b''] @
       tableInserts failingSource ''b'' @ [''-- Migration completed: 2 tables, 1 rows''] \<and>
     gen_count g = 7 \<and>
     gen_report g = [Log ''SQL file generated: ./temp/migration.sql'', Log ''Total statements: 7'',
                     Log ''Total data rows: 1'']"
    by (rule run [OF failingSource_queries(1,2) example_inserts(1) _ example_rows(1) example_rows(3)])
      simp_all
  show "\<exists>g. generateSQLFile emptiedSource ''T'' = Inr g \<and>
     gen_statements g = header ''T'' @ map (schemaOf failingSource) [''a'', ''b''] @
       tableInserts failingSource ''b'' @ [''-- Migration completed: 2 tables, 1 rows''] \<and>
     gen_count g = 7 \<and>
     gen_report g = [Log ''SQL file generated: ./temp/migration.sql'', Log ''Total statements: 7'',
                     Log ''Total data rows: 1'']"
    by (rule run [OF failingSource_queries(4,5) example_inserts(2) example_inserts(4)
          example_rows(2) example_rows(4) example_schemas])
qed

theorem generateSQLFile_fetch_failure_witness:
  "tableNamesQuery failingSource = Inr [''a'', ''b''] \<and>
   selectAllQuery failingSource ''a'' = Inl (RequestFailed ''gone'') \<and>
   tableInserts failingSource ''b'' =
     [''INSERT INTO '' @ [DQ] @ ''b'' @ [DQ] @ '' ('' @ [DQ] @ ''id'' @ [DQ] @ '') VALUES (1);''] \<and>
   tableRows failingSource ''b'' = 1 \<and>
   (\<exists>g g'. generateSQLFile failingSource ''T'' = Inr g \<and>
     tableInserts failingSource ''a'' = [] \<and> tableRows failingSource ''a'' = 0 \<and>
     gen_statements g = header ''T'' @ map (schemaOf failingSource) [''a'', ''b''] @
       concat (map (tableInserts failingSource) [''a'', ''b'']) @
       [summaryComment (length [''a'', ''b''])
          (sum_list (map (tableRows failingSource) [''a'', ''b'']))] \<and>
     gen_count g = length (gen_statements g) \<and>
     Error (''Error generating data for table '' @ ''a'' @ '': '' @ errorMessage (RequestFailed ''gone''))
       \<in> set (gen_console g) \<and>
     generateSQLFile
       (failingSource\<lparr>selectAllQuery := (selectAllQuery failingSource)(''a'' := Inr [])\<rparr>) ''T'' = Inr g' \<and>
     gen_statements g' = gen_statements g \<and> gen_count g' = gen_count g \<and> gen_report g' = gen_report g)"
proof -
  have m: "''a'' \<in> set [''a'', ''b'']" by simp
  note t = generateSQLFile_fetch_failure [OF failingSource_queries(1,2) m failingSource_queries(3),
      where now = "''T''"]
  from failingSource_queries(1,3) example_inserts(3) example_rows(3) t show ?thesis by blast
qed

text \<open>
  The final report does not show the failure: with the row query of table \<open>a\<close> throwing,
  the summary comment, the closing console lines, the statements and the returned count
  are those of the run in which \<open>a\<close> is empty.
\<close>

theorem generateSQLFile_failure_absent_from_final_report:
  "selectAllQuery failingSource ''a'' = Inl (RequestFailed ''gone'') \<and>
   selectAllQuery emptiedSource ''a'' = Inr [] \<and>
   \<not> isl (generateSQLFile failingSource ''T'') \<and>
   \<not> isl (generateSQLFile emptiedSource ''T'') \<and>
   gen_report (projr (generateSQLFile failingSource ''T'')) =
     [Log ''SQL file generated: ./temp/migration.sql'', Log ''Total statements: 7'',
      Log ''Total data rows: 1''] \<and>
   last (gen_statements (projr (generateSQLFile failingSource ''T''))) =
     ''-- Migration completed: 2 tables, 1 rows'' \<and>
   gen_report (projr (generateSQLFile failingSource ''T'')) =
     gen_report (projr (generateSQLFile emptiedSource ''T'')) \<and>
   gen_statements (projr (generateSQLFile failingSource ''T'')) =
     gen_statements (projr (generateSQLFile emptiedSource ''T'')) \<and>
   gen_count (projr (generateSQLFile failingSource ''T'')) =
     gen_count (projr (generateSQLFile emptiedSource ''T''))"
proof -
  from example_runs(1) obtain g1 where g1: "generateSQLFile failingSource ''T'' = Inr g1"
    and s1: "gen_statements g1 = header ''T'' @ map (schemaOf failingSource) [''a'', ''b''] @
       tableInserts failingSource ''b'' @ [''-- Migration completed: 2 tables, 1 rows'']"
    and n1: "gen_count g1 = 7"
    and r1: "gen_report g1 = [Log ''SQL file generated: ./temp/migration.sql'', Log ''Total statements: 7'',
                     Log ''Total data rows: 1'']"
    by blast
  from example_runs(2) obtain g2 where g2: "generateSQLFile emptiedSource ''T'' = Inr g2"
    and s2: "gen_statements g2 = header ''T'' @ map (schemaOf failingSource) [''a'', ''b''] @
       tableInserts failingSource ''b'' @ [''-- Migration completed: 2 tables, 1 rows'']"
    and n2: "gen_count g2 = 7"
    and r2: "gen_report g2 = [Log ''SQL file generated: ./temp/migration.sql'', Log ''Total statements: 7'',
                     Log ''Total data rows: 1'']"
    by blast
  have l: "last (gen_statements g1) = ''-- Migration completed: 2 tables, 1 rows''"
    unfolding s1 by simp
  show ?thesis
    unfolding g1 g2 sum.sel sum.disc using failingSource_queries(3,6) s1 s2 n1 n2 r1 r2 l by simp
qed

section \<open>Properties of both parsers on joined statements\<close>




























end
